theory Spec2Isabelle
  imports Main "HOL-Library.Sublist" "HOL-Library.AList"
begin

section \<open>The platform: paths, files, archives and processes\<close>

text \<open>
  The request handler of \<^verbatim>\<open>app.py\<close> works on the file system through \<^verbatim>\<open>pathlib\<close>,
  \<^verbatim>\<open>shutil\<close>, \<^verbatim>\<open>zipfile\<close> and \<^verbatim>\<open>tempfile\<close>, and on external programs through
  \<^verbatim>\<open>subprocess\<close>. This section fixes the model of these services; the functions of
  \<^verbatim>\<open>app.py\<close> follow in the next one.

  A file system is an association list from absolute paths (the list of the components
  below the root) to nodes. The list is read with \<open>map_of\<close>, so the first binding of a
  path is the one that counts. Symbolic links are leaves: an operation follows a link
  that is the last component of its path, and does not look for links among the
  directories above it.
\<close>

type_synonym bytes = string

type_synonym path = "string list"

datatype node = File bytes | Dir | Symlink path

type_synonym fs = "(path \<times> node) list"

datatype error =
    FileNotFoundError string
  | FileExistsError string
  | NotADirectoryError string
  | IsADirectoryError string
  | SameFileError string
  | TooManyLinks string
  | ValueError string
  | BadZipFile string
  | CalledProcessError "string list" int string string

text \<open>
  Every error carries the text that \<^verbatim>\<open>str(exc)\<close> gives, except
  \<^verbatim>\<open>CalledProcessError\<close>, which carries the command, the exit status and the captured
  standard output and standard error.
\<close>

text \<open>The subclasses of Python's \<^verbatim>\<open>OSError\<close> among the errors above.\<close>

fun is_OSError :: "error \<Rightarrow> bool" where
  "is_OSError (FileNotFoundError _) = True"
| "is_OSError (FileExistsError _) = True"
| "is_OSError (NotADirectoryError _) = True"
| "is_OSError (IsADirectoryError _) = True"
| "is_OSError (SameFileError _) = True"
| "is_OSError (TooManyLinks _) = True"
| "is_OSError _ = False"

subsection \<open>Strings\<close>

text \<open>\<^verbatim>\<open>s.split(c)\<close>: the pieces of \<open>s\<close> between the occurrences of \<open>c\<close>.\<close>

primrec split_on :: "char \<Rightarrow> string \<Rightarrow> string list" where
  "split_on c [] = [[]]"
| "split_on c (x # xs) =
     (if x = c then [] # split_on c xs
      else (case split_on c xs of [] \<Rightarrow> [[x]] | w # ws \<Rightarrow> (x # w) # ws))"

text \<open>\<^verbatim>\<open>sep.join(xs)\<close>.\<close>

fun join :: "string \<Rightarrow> string list \<Rightarrow> string" where
  "join sep [] = []"
| "join sep [x] = x"
| "join sep (x # y # ys) = x @ sep @ join sep (y # ys)"

text \<open>\<^verbatim>\<open>str(path)\<close> of an absolute path.\<close>

definition path_str :: "path \<Rightarrow> string" where
  "path_str p = CHR ''/'' # join ''/'' p"

text \<open>\<^verbatim>\<open>str.lower\<close> on ASCII letters.\<close>

definition lower_char :: "char \<Rightarrow> char" where
  "lower_char c =
     (let n = (of_char c :: nat) in if 65 \<le> n \<and> n \<le> 90 then char_of (n + 32) else c)"

definition lower :: "string \<Rightarrow> string" where
  "lower s = map lower_char s"

text \<open>\<^verbatim>\<open>str.strip()\<close>: whitespace is removed at both ends.\<close>

definition is_space :: "char \<Rightarrow> bool" where
  "is_space c = (c \<in> {CHR '' '', CHR 0x09, CHR 0x0A, CHR 0x0B, CHR 0x0C, CHR 0x0D})"

definition strip :: "string \<Rightarrow> string" where
  "strip s = rev (dropWhile is_space (rev (dropWhile is_space s)))"

text \<open>\<^verbatim>\<open>text.replace(old, new)\<close> for a non-empty \<open>old\<close>, scanning from the left.\<close>

function replace :: "string \<Rightarrow> string \<Rightarrow> string \<Rightarrow> string" where
  "replace old new s =
     (if old = [] \<or> s = [] then s
      else if prefix old s then new @ replace old new (drop (length old) s)
      else hd s # replace old new (tl s))"
  by pat_completeness auto
termination
  by (relation "measure (\<lambda>(old, new, s). length s)") auto

text \<open>The text of an error of the operating system about the path \<open>p\<close>.\<close>

definition os_msg :: "string \<Rightarrow> path \<Rightarrow> string" where
  "os_msg what p = what @ '': '' @ [CHR 0x27] @ path_str p @ [CHR 0x27]"

definition ENOENT :: "path \<Rightarrow> error" where
  "ENOENT p = FileNotFoundError (os_msg ''[Errno 2] No such file or directory'' p)"

definition EEXIST :: "path \<Rightarrow> error" where
  "EEXIST p = FileExistsError (os_msg ''[Errno 17] File exists'' p)"

definition ENOTDIR :: "path \<Rightarrow> error" where
  "ENOTDIR p = NotADirectoryError (os_msg ''[Errno 20] Not a directory'' p)"

definition EISDIR :: "path \<Rightarrow> error" where
  "EISDIR p = IsADirectoryError (os_msg ''[Errno 21] Is a directory'' p)"

definition ELOOP :: "path \<Rightarrow> error" where
  "ELOOP p = TooManyLinks (os_msg ''[Errno 40] Too many levels of symbolic links'' p)"

subsection \<open>Pure paths\<close>

text \<open>
  A \<^verbatim>\<open>PurePosixPath\<close> is its anchor (\<^verbatim>\<open>/\<close>, or \<^verbatim>\<open>//\<close> for a string that starts with
  exactly two slashes) and its parts. Parsing a string drops empty and \<^verbatim>\<open>.\<close> segments
  and keeps \<^verbatim>\<open>..\<close> segments.
\<close>

type_synonym ppath = "string \<times> string list"

definition pure :: "path \<Rightarrow> ppath" where
  "pure p = (''/'', p)"

definition str_parts :: "string \<Rightarrow> string list" where
  "str_parts s = filter (\<lambda>x. x \<noteq> [] \<and> x \<noteq> ''.'') (split_on CHR ''/'' s)"

definition str_anchor :: "string \<Rightarrow> string" where
  "str_anchor s = (if take 2 s = ''//'' \<and> take 3 s \<noteq> ''///'' then ''//'' else ''/'')"

text \<open>\<^verbatim>\<open>p / s\<close>: an absolute right operand replaces the left one.\<close>

definition joinpath :: "ppath \<Rightarrow> string \<Rightarrow> ppath" where
  "joinpath p s =
     (if s \<noteq> [] \<and> hd s = CHR ''/'' then (str_anchor s, str_parts s)
      else (fst p, snd p @ str_parts s))"

text \<open>
  \<^verbatim>\<open>Path.resolve()\<close> (not strict) on an absolute path without symbolic links: a
  \<^verbatim>\<open>..\<close> segment removes the segment before it, and stays at the root when there is
  none.
\<close>

definition normalize :: "string list \<Rightarrow> string list" where
  "normalize ps = foldl (\<lambda>acc c. if c = ''..'' then butlast acc else acc @ [c]) [] ps"

definition resolve :: "ppath \<Rightarrow> ppath" where
  "resolve p = (fst p, normalize (snd p))"

text \<open>\<^verbatim>\<open>p.relative_to(q)\<close> raises \<^verbatim>\<open>ValueError\<close> unless \<open>q\<close> is \<open>p\<close> or above it.\<close>

definition relative_to :: "ppath \<Rightarrow> ppath \<Rightarrow> error + string list" where
  "relative_to p q =
     (if fst p = fst q \<and> prefix (snd q) (snd p) then Inr (drop (length (snd q)) (snd p))
      else Inl (ValueError (path_str (snd p) @ '' is not in the subpath of '' @ path_str (snd q))))"

text \<open>\<^verbatim>\<open>Path.name\<close> and \<^verbatim>\<open>Path.suffix\<close>: the suffix starts at the last dot of the name,
  unless that dot is the first or the last character of the name.\<close>

definition name_of :: "path \<Rightarrow> string" where
  "name_of p = (if p = [] then [] else last p)"

definition suffix_of :: "string \<Rightarrow> string" where
  "suffix_of n =
     (if CHR ''.'' \<in> set n then
        (let i = length n - Suc (length (takeWhile (\<lambda>c. c \<noteq> CHR ''.'') (rev n)))
         in if 0 < i \<and> i < length n - 1 then drop i n else [])
      else [])"

subsection \<open>File system operations\<close>

text \<open>The root is a directory; every other path is what the list binds it to.\<close>

definition lookup :: "fs \<Rightarrow> path \<Rightarrow> node option" where
  "lookup fs p = (if p = [] then Some Dir else map_of fs p)"

text \<open>Following the links at the end of a path, at most \<open>n\<close> of them.\<close>

primrec follow :: "fs \<Rightarrow> nat \<Rightarrow> path \<Rightarrow> path option" where
  "follow fs 0 p = (case lookup fs p of Some (Symlink t) \<Rightarrow> None | _ \<Rightarrow> Some p)"
| "follow fs (Suc n) p = (case lookup fs p of Some (Symlink t) \<Rightarrow> follow fs n t | _ \<Rightarrow> Some p)"

definition stat :: "fs \<Rightarrow> path \<Rightarrow> node option" where
  "stat fs p = (case follow fs 40 p of None \<Rightarrow> None | Some q \<Rightarrow> lookup fs q)"

text \<open>\<^verbatim>\<open>Path.exists()\<close> and \<^verbatim>\<open>Path.is_dir()\<close> follow links.\<close>

definition exists :: "fs \<Rightarrow> path \<Rightarrow> bool" where
  "exists fs p = (stat fs p \<noteq> None)"

definition is_dir :: "fs \<Rightarrow> path \<Rightarrow> bool" where
  "is_dir fs p = (stat fs p = Some Dir)"

text \<open>
  \<^verbatim>\<open>Path.mkdir(parents=True, exist_ok=True)\<close> and \<^verbatim>\<open>os.makedirs(p, exist_ok=True)\<close>:
  walking down from \<open>cur\<close>, a missing directory is created, an existing one is kept, and
  anything else in the way is an error.
\<close>

primrec mkdirs :: "fs \<Rightarrow> path \<Rightarrow> string list \<Rightarrow> error + fs" where
  "mkdirs fs cur [] = Inr fs"
| "mkdirs fs cur (c # cs) =
     (case lookup fs (cur @ [c]) of
        None \<Rightarrow> mkdirs (AList.update (cur @ [c]) Dir fs) (cur @ [c]) cs
      | Some _ \<Rightarrow>
          if is_dir fs (cur @ [c]) then mkdirs fs (cur @ [c]) cs
          else if cs = [] then Inl (EEXIST (cur @ [c]))
          else Inl (ENOTDIR (cur @ [c])))"

definition mkdir_parents :: "path \<Rightarrow> fs \<Rightarrow> error + fs" where
  "mkdir_parents p fs = mkdirs fs [] p"

text \<open>Opening a file for writing and writing \<open>d\<close>: the directory must exist, the file
  is created or truncated, a link at the end of the path is followed.\<close>

definition write_bytes :: "path \<Rightarrow> bytes \<Rightarrow> fs \<Rightarrow> error + fs" where
  "write_bytes p d fs =
     (case follow fs 40 p of
        None \<Rightarrow> Inl (ELOOP p)
      | Some q \<Rightarrow>
          if q = [] then Inl (EISDIR q)
          else (case lookup fs (butlast q) of
             None \<Rightarrow> Inl (ENOENT q)
           | Some Dir \<Rightarrow>
               (case lookup fs q of
                  Some Dir \<Rightarrow> Inl (EISDIR q)
                | _ \<Rightarrow> Inr (AList.update q (File d) fs))
           | Some _ \<Rightarrow> Inl (ENOTDIR q)))"

text \<open>\<^verbatim>\<open>Path.read_bytes()\<close> and \<^verbatim>\<open>Path.read_text()\<close>.\<close>

definition read_bytes :: "path \<Rightarrow> fs \<Rightarrow> error + bytes" where
  "read_bytes p fs =
     (case follow fs 40 p of
        None \<Rightarrow> Inl (ELOOP p)
      | Some q \<Rightarrow>
          (case lookup fs q of
             None \<Rightarrow> Inl (ENOENT q)
           | Some (File d) \<Rightarrow> Inr d
           | Some _ \<Rightarrow> Inl (EISDIR q)))"

text \<open>\<^verbatim>\<open>shutil.copy(src, dst)\<close>: into \<open>dst\<close> when it is a directory, onto it otherwise.\<close>

definition shutil_copy :: "path \<Rightarrow> path \<Rightarrow> fs \<Rightarrow> error + fs" where
  "shutil_copy src dst fs =
     (let dst' = (if is_dir fs dst then dst @ [name_of src] else dst)
      in if follow fs 40 src \<noteq> None \<and> exists fs src \<and> follow fs 40 src = follow fs 40 dst'
         then Inl (SameFileError (path_str src @ '' and '' @ path_str dst' @ '' are the same file''))
         else (case read_bytes src fs of
                 Inl e \<Rightarrow> Inl e
               | Inr d \<Rightarrow> write_bytes dst' d fs))"

text \<open>\<^verbatim>\<open>Path.unlink(missing_ok=True)\<close> removes a file or a link, not a directory.\<close>

definition unlink_missing_ok :: "path \<Rightarrow> fs \<Rightarrow> error + fs" where
  "unlink_missing_ok p fs =
     (case lookup fs p of
        None \<Rightarrow> Inr fs
      | Some Dir \<Rightarrow> Inl (EISDIR p)
      | Some _ \<Rightarrow> Inr (AList.delete p fs))"

text \<open>\<^verbatim>\<open>target.symlink_to(entry)\<close> creates the link \<open>target\<close> pointing at \<open>entry\<close>.\<close>

definition symlink_to :: "path \<Rightarrow> path \<Rightarrow> fs \<Rightarrow> error + fs" where
  "symlink_to target entry fs =
     (if lookup fs target \<noteq> None then Inl (EEXIST target)
      else (case lookup fs (butlast target) of
              None \<Rightarrow> Inl (ENOENT target)
            | Some Dir \<Rightarrow> Inr (AList.update target (Symlink entry) fs)
            | Some _ \<Rightarrow> Inl (ENOTDIR target)))"

text \<open>\<^verbatim>\<open>Path.iterdir()\<close>: the names bound directly below \<open>d\<close>, in the order of the list.\<close>

definition iterdir :: "fs \<Rightarrow> path \<Rightarrow> string list" where
  "iterdir fs d = remdups (map last (filter (\<lambda>p. p \<noteq> [] \<and> butlast p = d) (map fst fs)))"

text \<open>\<^verbatim>\<open>Path.glob("*" + ending)\<close>: the names below \<open>d\<close> that end in \<open>ending\<close>.\<close>

definition glob_ending :: "fs \<Rightarrow> path \<Rightarrow> string \<Rightarrow> string list" where
  "glob_ending fs d ending = filter (\<lambda>n. suffix ending n) (iterdir fs d)"

text \<open>\<^verbatim>\<open>shutil.rmtree(d)\<close> removes \<open>d\<close> and everything below it.\<close>

definition rmtree :: "path \<Rightarrow> fs \<Rightarrow> fs" where
  "rmtree d fs = filter (\<lambda>(p, n). \<not> prefix d p) fs"

text \<open>\<^verbatim>\<open>os.mkdir(p)\<close>: the directory must be new and its parent a directory.\<close>

definition mkdir :: "path \<Rightarrow> fs \<Rightarrow> error + fs" where
  "mkdir p fs =
     (if lookup fs p \<noteq> None then Inl (EEXIST p)
      else (case lookup fs (butlast p) of
              None \<Rightarrow> Inl (ENOENT p)
            | Some Dir \<Rightarrow> Inr (AList.update p Dir fs)
            | Some _ \<Rightarrow> Inl (ENOTDIR p)))"

text \<open>
  \<^verbatim>\<open>tempfile.mkdtemp(prefix=pre)\<close> in the directory \<open>root\<close>: the candidate names are
  tried in turn, a name that exists is skipped, and the first new one is created.
\<close>

fun mkdtemp :: "path \<Rightarrow> string \<Rightarrow> string list \<Rightarrow> fs \<Rightarrow> error + (path \<times> fs)" where
  "mkdtemp root pre [] fs = Inl (FileExistsError ''No usable temporary directory name found'')"
| "mkdtemp root pre (n # ns) fs =
     (case mkdir (root @ [pre @ n]) fs of
        Inr fs' \<Rightarrow> Inr (root @ [pre @ n], fs')
      | Inl (FileExistsError m) \<Rightarrow> mkdtemp root pre ns fs
      | Inl e \<Rightarrow> Inl e)"

subsection \<open>Archives, processes and the state of a request\<close>

text \<open>A member of an archive (\<^verbatim>\<open>ZipInfo\<close>): its name and its uncompressed bytes.
  A member whose name ends in a slash is a directory.\<close>

record zip_info =
  zi_filename :: string
  zi_data :: bytes

definition zi_is_dir :: "zip_info \<Rightarrow> bool" where
  "zi_is_dir z = (zi_filename z \<noteq> [] \<and> last (zi_filename z) = CHR ''/'')"

text \<open>What \<^verbatim>\<open>subprocess.run\<close> observes of a process: it could not be started, or it
  completed with an exit status and its captured standard output and standard error.\<close>

datatype outcome = Spawn_failed error | Completed int string string

record call =
  call_cmd :: "string list"
  call_cwd :: path
  call_outcome :: outcome

text \<open>
  The surroundings of the application: the sanitizer of \<^verbatim>\<open>werkzeug\<close>, the reader of
  the archive format, the external programs (each maps the command line, the working
  directory, the environment and the file system to an outcome and a new file system),
  the environment variables, the directory of the application, the directory of
  temporary files and the candidate names \<^verbatim>\<open>tempfile\<close> draws.
\<close>

record world =
  secure_filename :: "string \<Rightarrow> string"
  read_zip :: "bytes \<Rightarrow> zip_info list option"
  run_process :: "string list \<Rightarrow> path \<Rightarrow> (string \<Rightarrow> string option) \<Rightarrow> fs \<Rightarrow> outcome \<times> fs"
  environ :: "string \<Rightarrow> string option"
  app_root :: path
  tmp_root :: path
  tmp_names :: "string list"

text \<open>The state a request runs in: the file system and the processes run so far.\<close>

record state =
  files :: fs
  calls :: "call list"

text \<open>A computation that may raise: the error or the value, and the state it leaves.\<close>

type_synonym 'a action = "state \<Rightarrow> (error + 'a) \<times> state"

definition return :: "'a \<Rightarrow> 'a action" where
  "return x st = (Inr x, st)"

definition raise :: "error \<Rightarrow> 'a action" where
  "raise e st = (Inl e, st)"

definition and_then :: "'a action \<Rightarrow> ('a \<Rightarrow> 'b action) \<Rightarrow> 'b action" where
  "and_then m f st = (case m st of (Inl e, st') \<Rightarrow> (Inl e, st') | (Inr x, st') \<Rightarrow> f x st')"

definition fs_op :: "(fs \<Rightarrow> error + fs) \<Rightarrow> unit action" where
  "fs_op f st =
     (case f (files st) of Inl e \<Rightarrow> (Inl e, st) | Inr fs' \<Rightarrow> (Inr (), st\<lparr>files := fs'\<rparr>))"

definition fs_get :: "(fs \<Rightarrow> error + 'a) \<Rightarrow> 'a action" where
  "fs_get f st = (case f (files st) of Inl e \<Rightarrow> (Inl e, st) | Inr x \<Rightarrow> (Inr x, st))"

text \<open>\<^verbatim>\<open>zipfile.ZipFile(zip_path)\<close> followed by \<^verbatim>\<open>infolist()\<close>.\<close>

definition zipfile_open :: "world \<Rightarrow> path \<Rightarrow> fs \<Rightarrow> error + zip_info list" where
  "zipfile_open W zip_path fs =
     (case read_bytes zip_path fs of
        Inl e \<Rightarrow> Inl e
      | Inr d \<Rightarrow> (case read_zip W d of
                   None \<Rightarrow> Inl (BadZipFile ''File is not a zip file'')
                 | Some ms \<Rightarrow> Inr ms))"

text \<open>
  \<^verbatim>\<open>ZipFile.extractall(dest)\<close> extracts the members in the order of the archive. For
  each one the name is split at the slashes, the empty, \<^verbatim>\<open>.\<close> and \<^verbatim>\<open>..\<close> segments are
  dropped, the directories above the target are created when they are missing, and the
  member is written there: a directory is created, a file is opened for writing.
\<close>

definition arcname_parts :: "string \<Rightarrow> string list" where
  "arcname_parts fn = filter (\<lambda>x. x \<noteq> [] \<and> x \<noteq> ''.'' \<and> x \<noteq> ''..'') (split_on CHR ''/'' fn)"

definition extract_member :: "path \<Rightarrow> zip_info \<Rightarrow> unit action" where
  "extract_member dest z =
     (let parts = arcname_parts (zi_filename z);
          target = dest @ parts;
          upperdirs = butlast target
      in if parts = [] \<and> \<not> zi_is_dir z then raise (ValueError ''Empty filename.'')
         else and_then
           (\<lambda>st. if \<not> exists (files st) upperdirs then fs_op (mkdir_parents upperdirs) st
                 else return () st)
           (\<lambda>_. if zi_is_dir z
                 then (\<lambda>st. if \<not> is_dir (files st) target then fs_op (mkdir target) st
                            else return () st)
                 else fs_op (write_bytes target (zi_data z))))"

fun extractall :: "path \<Rightarrow> zip_info list \<Rightarrow> unit action" where
  "extractall dest [] = return ()"
| "extractall dest (z # zs) = and_then (extract_member dest z) (\<lambda>_. extractall dest zs)"

section \<open>The application\<close>

definition ASSETS :: "string list" where
  "ASSETS =
     [''ieee/ieee-conference.tex'',
      ''ieee/IEEEtran.cls'',
      ''ieee/IEEEtran.bst'',
      ''ieee/ieee.csl'',
      ''ieee/pandoc-csl-fix.tex'']"

definition ALLOWED_MD :: "string set" where
  "ALLOWED_MD = {''md''}"

definition ALLOWED_BIB :: "string set" where
  "ALLOWED_BIB = {''bib''}"

definition ALLOWED_ZIP :: "string set" where
  "ALLOWED_ZIP = {''zip''}"

text \<open>\<^verbatim>\<open>p / s\<close> for a path \<open>p\<close> of the file system.\<close>

definition under :: "path \<Rightarrow> string \<Rightarrow> path" where
  "under p s = snd (joinpath (pure p) s)"

text \<open>\<^verbatim>\<open>_allowed\<close>: the name has a dot, and what follows its last dot is, in lower case,
  one of \<open>exts\<close>.\<close>

definition allowed :: "string \<Rightarrow> string set \<Rightarrow> bool" where
  "allowed fname exts =
     (CHR ''.'' \<in> set fname \<and>
      lower (rev (takeWhile (\<lambda>c. c \<noteq> CHR ''.'') (rev fname))) \<in> exts)"

text \<open>\<^verbatim>\<open>_copy_assets\<close>: the loop over the names, then the function.\<close>

fun copy_assets_loop :: "world \<Rightarrow> path \<Rightarrow> string list \<Rightarrow> unit action" where
  "copy_assets_loop W dest [] = return ()"
| "copy_assets_loop W dest (name # names) =
     (\<lambda>st.
        let src = under (app_root W) name
        in if \<not> exists (files st) src
           then raise (FileNotFoundError (''Missing required asset: '' @ name)) st
           else (let target = under dest name
                 in and_then (fs_op (mkdir_parents (butlast target)))
                      (\<lambda>_. and_then (fs_op (shutil_copy src target))
                        (\<lambda>_. copy_assets_loop W dest names))) st)"

definition copy_assets :: "world \<Rightarrow> path \<Rightarrow> unit action" where
  "copy_assets W dest = copy_assets_loop W dest ASSETS"

text \<open>\<^verbatim>\<open>_link_paper_assets\<close>: the loop over the entries of \<open>src_dir\<close>, with the links
  made so far, then the function.\<close>

fun link_loop :: "path \<Rightarrow> path \<Rightarrow> string list \<Rightarrow> path list \<Rightarrow> (path list) action" where
  "link_loop src_dir work_dir [] links = return links"
| "link_loop src_dir work_dir (n # ns) links =
     (\<lambda>st.
        if suffix_of n = ''.md'' \<or> suffix_of n = ''.bib''
        then link_loop src_dir work_dir ns links st
        else (let target = work_dir @ [n]
              in if exists (files st) target
                 then link_loop src_dir work_dir ns links st
                 else and_then (fs_op (symlink_to target (src_dir @ [n])))
                        (\<lambda>_. link_loop src_dir work_dir ns (links @ [target])) st))"

definition link_paper_assets :: "path \<Rightarrow> path \<Rightarrow> (path list) action" where
  "link_paper_assets src_dir work_dir =
     (\<lambda>st. if \<not> exists (files st) src_dir then return [] st
           else link_loop src_dir work_dir (iterdir (files st) src_dir) [] st)"

text \<open>\<^verbatim>\<open>_run\<close>: \<^verbatim>\<open>subprocess.run\<close> with \<^verbatim>\<open>check=True\<close> and captured output. The call
  is recorded, and an exit status other than zero raises.\<close>

definition run :: "world \<Rightarrow> string list \<Rightarrow> path \<Rightarrow> (string \<Rightarrow> string option) \<Rightarrow> unit action" where
  "run W cmd cwd env st =
     (case run_process W cmd cwd env (files st) of
        (out, fs') \<Rightarrow>
          (let st' = \<lparr>files = fs',
                      calls = calls st @ [\<lparr>call_cmd = cmd, call_cwd = cwd, call_outcome = out\<rparr>]\<rparr>
           in case out of
                Spawn_failed e \<Rightarrow> (Inl e, st')
              | Completed rc so se \<Rightarrow>
                  if rc \<noteq> 0 then (Inl (CalledProcessError cmd rc so se), st')
                  else (Inr (), st')))"

text \<open>\<^verbatim>\<open>for p in ps: p.unlink(missing_ok=True)\<close>.\<close>

fun unlink_all :: "path list \<Rightarrow> unit action" where
  "unlink_all [] = return ()"
| "unlink_all (p # ps) = and_then (fs_op (unlink_missing_ok p)) (\<lambda>_. unlink_all ps)"

text \<open>\<^verbatim>\<open>for bib in names: shutil.copy(paper_dir / bib, out_dir / bib)\<close>.\<close>

fun copy_bibs :: "path \<Rightarrow> path \<Rightarrow> string list \<Rightarrow> unit action" where
  "copy_bibs paper_dir out_dir [] = return ()"
| "copy_bibs paper_dir out_dir (n # ns) =
     and_then (fs_op (shutil_copy (paper_dir @ [n]) (out_dir @ [n])))
       (\<lambda>_. copy_bibs paper_dir out_dir ns)"

text \<open>\<^verbatim>\<open>env.get(k, '')\<close>.\<close>

definition env_get :: "(string \<Rightarrow> string option) \<Rightarrow> string \<Rightarrow> string" where
  "env_get env k = (case env k of None \<Rightarrow> [] | Some v \<Rightarrow> v)"

text \<open>The command lines of \<^verbatim>\<open>_run_conversion\<close>.\<close>

definition pandoc_cmd :: "path \<Rightarrow> string list" where
  "pandoc_cmd paper_dir =
     [''pandoc'', path_str (paper_dir @ [''paper.md'']), ''--template'',
      ''ieee/ieee-conference.tex'', ''--natbib'', ''-s'', ''-o'', ''outputs/paper.tex'']"

definition pdflatex_cmd :: "string list" where
  "pdflatex_cmd =
     [''pdflatex'', ''-interaction=nonstopmode'', ''-halt-on-error'', ''-output-directory'',
      ''outputs'', ''outputs/paper.tex'']"

definition bibtex_cmd :: "string list" where
  "bibtex_cmd = [''bibtex'', ''outputs/paper'']"

definition conversion_env :: "world \<Rightarrow> path \<Rightarrow> path \<Rightarrow> string \<Rightarrow> string option" where
  "conversion_env W work paper_dir =
     (let out_dir = work @ [''outputs''];
          ieee_dir = work @ [''ieee''];
          env = environ W;
          env = env(''TEXINPUTS'' \<mapsto> path_str ieee_dir @ '':'' @ env_get env ''TEXINPUTS'' @ '':'');
          env = env(''BIBINPUTS'' \<mapsto>
                  path_str paper_dir @ '':'' @ path_str out_dir @ '':'' @
                  env_get env ''BIBINPUTS'' @ '':'');
          env = env(''BSTINPUTS'' \<mapsto>
                  path_str ieee_dir @ '':'' @ path_str paper_dir @ '':'' @ path_str out_dir @
                  '':'' @ env_get env ''BSTINPUTS'' @ '':'')
      in env)"

text \<open>\<^verbatim>\<open>_run_conversion\<close>.\<close>

definition run_conversion :: "world \<Rightarrow> path \<Rightarrow> path \<Rightarrow> unit action" where
  "run_conversion W work paper_dir =
     (let out_dir = work @ [''outputs''];
          env = conversion_env W work paper_dir;
          tex_path = out_dir @ [''paper.tex'']
      in and_then (fs_op (mkdir_parents out_dir))
         (\<lambda>_. and_then (run W (pandoc_cmd paper_dir) work env)
         (\<lambda>_. and_then (fs_get (read_bytes tex_path))
         (\<lambda>text. and_then
                    (fs_op (write_bytes tex_path
                       (replace (CHR 0x5C # ''citep'') (CHR 0x5C # ''cite'') text)))
         (\<lambda>_. and_then
                 (unlink_all
                    (map (\<lambda>ext. out_dir @ [''paper.'' @ ext])
                       [''aux'', ''bbl'', ''blg'', ''out'', ''log'', ''pdf'']))
         (\<lambda>_. and_then
                 (\<lambda>st. copy_bibs paper_dir out_dir (glob_ending (files st) paper_dir ''.bib'') st)
         (\<lambda>_. and_then (run W pdflatex_cmd work env)
         (\<lambda>_. and_then (run W bibtex_cmd work env)
         (\<lambda>_. and_then (run W pdflatex_cmd work env)
         (\<lambda>_. run W pdflatex_cmd work env))))))))))"

text \<open>\<^verbatim>\<open>_safe_extract_zip\<close>: the loop that checks the members, then the function.\<close>

fun check_members :: "path \<Rightarrow> ppath \<Rightarrow> zip_info list \<Rightarrow> unit action" where
  "check_members dest dest_resolved [] = return ()"
| "check_members dest dest_resolved (member # members) =
     (let member_path = resolve (joinpath (pure dest) (zi_filename member))
      in case relative_to member_path dest_resolved of
           Inl e \<Rightarrow> raise (ValueError ''Zip file contains an unsafe path.'')
         | Inr r \<Rightarrow> check_members dest dest_resolved members)"

definition safe_extract_zip :: "world \<Rightarrow> path \<Rightarrow> path \<Rightarrow> unit action" where
  "safe_extract_zip W zip_path dest =
     (let dest_resolved = resolve (pure dest)
      in and_then (fs_get (zipfile_open W zip_path))
           (\<lambda>members. and_then (check_members dest dest_resolved members)
              (\<lambda>_. extractall dest members)))"

subsection \<open>The request handler\<close>

datatype http_method = GET | POST

record upload =
  up_filename :: string
  up_data :: bytes

record request =
  req_method :: http_method
  md_file :: "upload option"
  bib_file :: "upload option"
  fig_zip :: "upload option"

text \<open>
  The answers of the handler: the page \<^verbatim>\<open>index.html\<close> rendered with its \<^verbatim>\<open>error\<close> and
  \<^verbatim>\<open>log\<close> arguments (when given), the file sent with its content type, attachment flag
  and download name, or an exception that leaves the handler.
\<close>

datatype response =
    Render_template "string option" "string option"
  | Send_file bytes string bool string
  | Uncaught error

text \<open>An upload that is there and has a name: the negation of
  \<^verbatim>\<open>not f or not f.filename\<close>.\<close>

definition present :: "upload option \<Rightarrow> upload option" where
  "present u = (case u of None \<Rightarrow> None | Some f \<Rightarrow> if up_filename f = [] then None else Some f)"

text \<open>\<^verbatim>\<open>str(n)\<close> of a natural number, and \<^verbatim>\<open>str(exc)\<close>. Of a
  \<^verbatim>\<open>CalledProcessError\<close> the text names the command and the exit status; the command is
  printed as \<^verbatim>\<open>repr\<close> prints a list of plain strings, and a signal by its number.\<close>

fun show_nat :: "nat \<Rightarrow> string" where
  "show_nat n =
     (if n < 10 then [char_of (48 + n)] else show_nat (n div 10) @ [char_of (48 + n mod 10)])"

definition repr_cmd :: "string list \<Rightarrow> string" where
  "repr_cmd cmd = ''['' @ join '', '' (map (\<lambda>a. [CHR 0x27] @ a @ [CHR 0x27]) cmd) @ '']''"

fun exc_str :: "error \<Rightarrow> string" where
  "exc_str (FileNotFoundError m) = m"
| "exc_str (FileExistsError m) = m"
| "exc_str (NotADirectoryError m) = m"
| "exc_str (IsADirectoryError m) = m"
| "exc_str (SameFileError m) = m"
| "exc_str (TooManyLinks m) = m"
| "exc_str (ValueError m) = m"
| "exc_str (BadZipFile m) = m"
| "exc_str (CalledProcessError cmd rc so se) =
     (if rc < 0
      then ''Command '' @ [CHR 0x27] @ repr_cmd cmd @ [CHR 0x27] @ '' died with unknown signal '' @
           show_nat (nat (- rc)) @ ''.''
      else ''Command '' @ [CHR 0x27] @ repr_cmd cmd @ [CHR 0x27] @
           '' returned non-zero exit status '' @ show_nat (nat rc) @ ''.'')"

text \<open>Lines 184 to 189: the bibliography is saved under its sanitized name, and copied to
  \<^verbatim>\<open>library.bib\<close> when that is another name.\<close>

definition index_stage_bib :: "world \<Rightarrow> upload \<Rightarrow> path \<Rightarrow> unit action" where
  "index_stage_bib W bib paper_dir =
     (let bib_name = (if secure_filename W (up_filename bib) = [] then ''library.bib''
                      else secure_filename W (up_filename bib));
          bib_path = under paper_dir bib_name
      in and_then (fs_op (write_bytes bib_path (up_data bib)))
           (\<lambda>_. if bib_name \<noteq> ''library.bib''
                 then fs_op (shutil_copy bib_path (paper_dir @ [''library.bib'']))
                 else return ()))"

text \<open>\<^verbatim>\<open>try: body finally: fin\<close>: \<open>fin\<close> runs after \<open>body\<close> whatever its outcome, and an
  error of \<open>fin\<close> replaces the outcome of \<open>body\<close>.\<close>

definition try_finally :: "'a action \<Rightarrow> unit action \<Rightarrow> 'a action" where
  "try_finally body fin st =
     (case body st of
        (r, st1) \<Rightarrow> (case fin st1 of (Inl e, st2) \<Rightarrow> (Inl e, st2) | (Inr u, st2) \<Rightarrow> (r, st2)))"

text \<open>Lines 195 to 200: the links are made, the conversion runs, the links are removed.\<close>

definition index_pipeline :: "world \<Rightarrow> path \<Rightarrow> path \<Rightarrow> unit action" where
  "index_pipeline W work paper_dir =
     and_then (link_paper_assets paper_dir work)
       (\<lambda>links. try_finally (run_conversion W work paper_dir) (unlink_all links))"

text \<open>Lines 202 to 212: the compiled document is read and sent.\<close>

definition index_result :: "path \<Rightarrow> response action" where
  "index_result work =
     (\<lambda>st.
        let pdf_path = work @ [''outputs'', ''paper.pdf'']
        in if \<not> exists (files st) pdf_path
           then raise (FileNotFoundError ''PDF was not generated.'') st
           else and_then (fs_get (read_bytes pdf_path))
                  (\<lambda>pdf_bytes. return (Send_file pdf_bytes ''application/pdf'' True ''paper.pdf''))
                  st)"

text \<open>Lines 179 to 212: the body of the \<^verbatim>\<open>try\<close> statement.\<close>

definition index_try :: "world \<Rightarrow> upload \<Rightarrow> upload \<Rightarrow> upload \<Rightarrow> path \<Rightarrow> path \<Rightarrow> response action" where
  "index_try W md bib fig work paper_dir =
     and_then (copy_assets W work)
     (\<lambda>_. and_then (fs_op (write_bytes (paper_dir @ [''paper.md'']) (up_data md)))
     (\<lambda>_. and_then (index_stage_bib W bib paper_dir)
     (\<lambda>_. and_then (fs_op (write_bytes (work @ [''figures.zip'']) (up_data fig)))
     (\<lambda>_. and_then (safe_extract_zip W (work @ [''figures.zip'']) paper_dir)
     (\<lambda>_. and_then (index_pipeline W work paper_dir)
     (\<lambda>_. index_result work))))))"

text \<open>Lines 213 to 221: the \<^verbatim>\<open>except\<close> clause. An error of another class leaves the
  handler.\<close>

definition index_except :: "error \<Rightarrow> response" where
  "index_except exc =
     (case exc of
        CalledProcessError cmd rc so se \<Rightarrow>
          Render_template (Some (exc_str exc))
            (Some (strip (so @ (if se \<noteq> [] then [CHR 0x0A] @ se else []))))
      | ValueError m \<Rightarrow> Render_template (Some (exc_str exc)) (Some (strip []))
      | _ \<Rightarrow> if is_OSError exc then Render_template (Some (exc_str exc)) (Some (strip []))
             else Uncaught exc)"

text \<open>Lines 174 to 221: the body of the \<^verbatim>\<open>with\<close> statement, in the workspace \<open>work\<close>.\<close>

definition index_workspace :: "world \<Rightarrow> upload \<Rightarrow> upload \<Rightarrow> upload \<Rightarrow> path \<Rightarrow> state \<Rightarrow> response \<times> state" where
  "index_workspace W md bib fig work st =
     (let paper_dir = work @ [''paperFiles'']
      in case fs_op (mkdir_parents paper_dir) st of
           (Inl e, st1) \<Rightarrow> (Uncaught e, st1)
         | (Inr u, st1) \<Rightarrow>
             (case index_try W md bib fig work paper_dir st1 of
                (Inr resp, st2) \<Rightarrow> (resp, st2)
              | (Inl exc, st2) \<Rightarrow> (index_except exc, st2)))"

text \<open>
  Lines 173 to 221: the statement \<^verbatim>\<open>with tempfile.TemporaryDirectory(prefix="ieee-convert-")\<close>
  creates the workspace, runs its body and removes the workspace and everything below it
  when the body is left, by its return or by an exception.
\<close>

definition index_with :: "world \<Rightarrow> upload \<Rightarrow> upload \<Rightarrow> upload \<Rightarrow> state \<Rightarrow> response \<times> state" where
  "index_with W md bib fig st =
     (case mkdtemp (tmp_root W) ''ieee-convert-'' (tmp_names W) (files st) of
        Inl e \<Rightarrow> (Uncaught e, st)
      | Inr (tmpdir, fs1) \<Rightarrow>
          (case index_workspace W md bib fig tmpdir (st\<lparr>files := fs1\<rparr>) of
             (resp, st2) \<Rightarrow> (resp, st2\<lparr>files := rmtree tmpdir (files st2)\<rparr>)))"

text \<open>\<^verbatim>\<open>index\<close>.\<close>

definition index :: "world \<Rightarrow> request \<Rightarrow> state \<Rightarrow> response \<times> state" where
  "index W req st =
     (if req_method req = GET then (Render_template None None, st)
      else case present (md_file req) of
        None \<Rightarrow> (Render_template (Some ''Missing .md file.'') None, st)
      | Some md \<Rightarrow>
      (case present (bib_file req) of
        None \<Rightarrow> (Render_template (Some ''Missing .bib file.'') None, st)
      | Some bib \<Rightarrow>
      (case present (fig_zip req) of
        None \<Rightarrow> (Render_template (Some ''Missing figures .zip file.'') None, st)
      | Some fig \<Rightarrow>
        if \<not> allowed (up_filename md) ALLOWED_MD
        then (Render_template (Some ''Markdown file must be .md.'') None, st)
        else if \<not> allowed (up_filename bib) ALLOWED_BIB
        then (Render_template (Some ''Bibliography file must be .bib.'') None, st)
        else if \<not> allowed (up_filename fig) ALLOWED_ZIP
        then (Render_template (Some ''Figures upload must be a .zip.'') None, st)
        else index_with W md bib fig st)))"

section \<open>Notions of the specification\<close>

text \<open>An entry lies inside the destination when its resolved destination path is the
  resolved destination directory or below it.\<close>

definition inside :: "path \<Rightarrow> string \<Rightarrow> bool" where
  "inside dest fname =
     (let member_path = resolve (joinpath (pure dest) fname);
          dest_resolved = resolve (pure dest)
      in fst member_path = fst dest_resolved \<and> prefix (snd dest_resolved) (snd member_path))"

text \<open>A request is accepted when it is a POST request whose three uploads are there
  with names of the right extensions: it is then that a workspace is created.\<close>

definition accepted :: "request \<Rightarrow> bool" where
  "accepted req =
     (req_method req = POST \<and>
      (case present (md_file req) of None \<Rightarrow> False | Some md \<Rightarrow>
       (case present (bib_file req) of None \<Rightarrow> False | Some bib \<Rightarrow>
        (case present (fig_zip req) of None \<Rightarrow> False | Some fig \<Rightarrow>
           allowed (up_filename md) ALLOWED_MD \<and> allowed (up_filename bib) ALLOWED_BIB \<and>
           allowed (up_filename fig) ALLOWED_ZIP))))"

text \<open>A plain file name: one segment of a path, as the sanitizer returns it when it
  does not return the empty string.\<close>

definition plain_name :: "string \<Rightarrow> bool" where
  "plain_name n = (n \<noteq> [] \<and> CHR ''/'' \<notin> set n \<and> n \<noteq> ''.'' \<and> n \<noteq> ''..'')"

text \<open>A path that is free or holds a regular file, and one that is free or holds a
  directory.\<close>

definition file_or_free :: "fs \<Rightarrow> path \<Rightarrow> bool" where
  "file_or_free fs p = (case lookup fs p of None \<Rightarrow> True | Some (File d) \<Rightarrow> True | Some _ \<Rightarrow> False)"




section \<open>A sample installation\<close>

text \<open>The programs of the sample: the converter writes the intermediate file, the
  compiler writes the document, and a program fails when the file \<^verbatim>\<open>/fail\<close> names it.\<close>

definition demo_process ::
  "string list \<Rightarrow> path \<Rightarrow> (string \<Rightarrow> string option) \<Rightarrow> fs \<Rightarrow> outcome \<times> fs" where
  "demo_process cmd cwd env fs =
     (if cmd \<noteq> [] \<and> lookup fs [''fail''] = Some (File (hd cmd))
      then (Completed 1 ''some output'' ''some error'', fs)
      else if cmd \<noteq> [] \<and> hd cmd = ''pandoc''
      then (Completed 0 [] [],
            AList.update (cwd @ [''outputs'', ''paper.tex''])
              (File (CHR 0x5C # ''citep{x}'')) fs)
      else if cmd \<noteq> [] \<and> hd cmd = ''pdflatex''
      then (Completed 0 [] [],
            AList.update (cwd @ [''outputs'', ''paper.pdf'']) (File ''%PDF-1.5'') fs)
      else (Completed 0 [] [], fs))"

definition demo_archive :: "bytes \<Rightarrow> zip_info list option" where
  "demo_archive d =
     (if d = ''figures'' then Some [\<lparr>zi_filename = ''result_plots/test.png'', zi_data = ''PNG''\<rparr>]
      else if d = ''evil'' then Some [\<lparr>zi_filename = ''../evil.txt'', zi_data = ''nope''\<rparr>]
      else if d = ''twice''
      then Some [\<lparr>zi_filename = ''a.png'', zi_data = ''one''\<rparr>,
                 \<lparr>zi_filename = ''a.png'', zi_data = ''two''\<rparr>]
      else if d = ''hidden'' then Some [\<lparr>zi_filename = ''.md'', zi_data = ''notes''\<rparr>]
      else if d = ''tree''
      then Some [\<lparr>zi_filename = ''plots/'', zi_data = []\<rparr>,
                 \<lparr>zi_filename = ''plots/a.png'', zi_data = ''A''\<rparr>,
                 \<lparr>zi_filename = ''b/c.png'', zi_data = ''C''\<rparr>]
      else None)"

text \<open>The sanitizer of the sample keeps letters, digits, dots, dashes and underscores,
  and drops the dots and underscores at both ends.\<close>

definition demo_sanitize :: "string \<Rightarrow> string" where
  "demo_sanitize s =
     (let keep = filter (\<lambda>c. c \<in> set (''abcdefghijklmnopqrstuvwxyz'' @
                   ''ABCDEFGHIJKLMNOPQRSTUVWXYZ'' @ ''0123456789_.-'')) s;
          edge = (\<lambda>c. c = CHR ''.'' \<or> c = CHR ''_'')
      in rev (dropWhile edge (rev (dropWhile edge keep))))"

definition demo_world :: world where
  "demo_world =
     \<lparr>secure_filename = demo_sanitize,
      read_zip = demo_archive,
      run_process = demo_process,
      environ = (\<lambda>k. None),
      app_root = [''app''],
      tmp_root = [''tmp''],
      tmp_names = [''a'', ''b'']\<rparr>"

definition demo_files :: fs where
  "demo_files =
     [([''tmp''], Dir), ([''app''], Dir), ([''app'', ''ieee''], Dir),
      ([''app'', ''ieee'', ''ieee-conference.tex''], File ''template''),
      ([''app'', ''ieee'', ''IEEEtran.cls''], File ''class''),
      ([''app'', ''ieee'', ''IEEEtran.bst''], File ''bst''),
      ([''app'', ''ieee'', ''ieee.csl''], File ''csl''),
      ([''app'', ''ieee'', ''pandoc-csl-fix.tex''], File ''fix'')]"

definition demo_state :: state where
  "demo_state = \<lparr>files = demo_files, calls = []\<rparr>"

definition demo_request :: request where
  "demo_request =
     \<lparr>req_method = POST,
      md_file = Some \<lparr>up_filename = ''paper.md'', up_data = ''text''\<rparr>,
      bib_file = Some \<lparr>up_filename = ''refs.bib'', up_data = ''entries''\<rparr>,
      fig_zip = Some \<lparr>up_filename = ''figures.zip'', up_data = ''figures''\<rparr>\<rparr>"

text \<open>A workspace in which the archive \<open>d\<close> has been saved and nothing extracted yet.\<close>

definition demo_staged :: "bytes \<Rightarrow> state" where
  "demo_staged d =
     \<lparr>files = [([''tmp''], Dir), ([''tmp'', ''w''], Dir), ([''tmp'', ''w'', ''paperFiles''], Dir),
               ([''tmp'', ''w'', ''paperFiles'', ''paper.md''], File ''text''),
               ([''tmp'', ''w'', ''figures.zip''], File d)],
      calls = []\<rparr>"

text \<open>A workspace after the pipeline, with the compiled document \<open>d\<close> when there is
  one.\<close>

definition demo_outputs :: "bytes option \<Rightarrow> state" where
  "demo_outputs d =
     \<lparr>files = [([''tmp''], Dir), ([''tmp'', ''w''], Dir), ([''tmp'', ''w'', ''outputs''], Dir),
               ([''tmp'', ''w'', ''outputs'', ''paper.tex''], File ''tex'')] @
              (case d of None \<Rightarrow> []
               | Some b \<Rightarrow> [([''tmp'', ''w'', ''outputs'', ''paper.pdf''], File b)]),
      calls = []\<rparr>"

text \<open>A computation that runs no process.\<close>

definition fs_only :: "'a action \<Rightarrow> bool" where
  "fs_only m = (\<forall>st. calls (snd (m st)) = calls st)"




text \<open>An entry \<open>n\<close> of the manuscript directory gets a link in \<open>work\<close>: its suffix is
  neither \<^verbatim>\<open>.md\<close> nor \<^verbatim>\<open>.bib\<close>, and nothing is called \<open>n\<close> in \<open>work\<close>.\<close>

definition to_link :: "fs \<Rightarrow> path \<Rightarrow> string \<Rightarrow> bool" where
  "to_link fs work n =
     (suffix_of n \<noteq> ''.md'' \<and> suffix_of n \<noteq> ''.bib'' \<and> lookup fs (work @ [n]) = None)"

text \<open>The workspace of the sample after the extraction of an archive that holds a
  figure, a hidden file \<^verbatim>\<open>.md\<close> and a directory \<^verbatim>\<open>ieee\<close>.\<close>

definition demo_extracted :: state where
  "demo_extracted =
     \<lparr>files = [([''tmp''], Dir), ([''tmp'', ''w''], Dir), ([''tmp'', ''w'', ''ieee''], Dir),
               ([''tmp'', ''w'', ''paperFiles''], Dir),
               ([''tmp'', ''w'', ''paperFiles'', ''paper.md''], File ''text''),
               ([''tmp'', ''w'', ''paperFiles'', ''library.bib''], File ''entries''),
               ([''tmp'', ''w'', ''figures.zip''], File ''hidden''),
               ([''tmp'', ''w'', ''paperFiles'', ''result_plots''], Dir),
               ([''tmp'', ''w'', ''paperFiles'', ''result_plots'', ''test.png''], File ''PNG''),
               ([''tmp'', ''w'', ''paperFiles'', ''.md''], File ''notes''),
               ([''tmp'', ''w'', ''paperFiles'', ''ieee''], Dir)],
      calls = []\<rparr>"

text \<open>A path that holds a symbolic link.\<close>

definition is_symlink :: "fs \<Rightarrow> path \<Rightarrow> bool" where
  "is_symlink fs p = (case lookup fs p of Some (Symlink t) \<Rightarrow> True | _ \<Rightarrow> False)"







section \<open>Facts about the file system\<close>

lemma lookup_update:
  "lookup (AList.update k v fs) p =
     (if p = [] then Some Dir else if p = k then Some v else lookup fs p)"
  by (simp add: lookup_def update_conv')

lemma lookup_delete:
  "lookup (AList.delete k fs) p =
     (if p = [] then Some Dir else if p = k then None else lookup fs p)"
  by (simp add: lookup_def delete_conv')

lemma map_of_rmtree:
  "map_of (rmtree d fs) p = (if prefix d p then None else map_of fs p)"
  by (induction fs) (auto simp: rmtree_def)

lemma lookup_rmtree:
  "d \<noteq> [] \<Longrightarrow> lookup (rmtree d fs) p = (if prefix d p then None else lookup fs p)"
  by (auto simp: lookup_def map_of_rmtree)

lemma follow_plain:
  "(\<And>t. lookup fs p \<noteq> Some (Symlink t)) \<Longrightarrow> follow fs n p = Some p"
  by (cases n) (auto split: option.splits node.splits)

lemma stat_plain:
  "(\<And>t. lookup fs p \<noteq> Some (Symlink t)) \<Longrightarrow> stat fs p = lookup fs p"
  by (simp add: stat_def follow_plain)

lemma mkdir_Inr:
  "mkdir p fs = Inr fs' \<Longrightarrow> lookup fs p = None \<and> p \<noteq> [] \<and> fs' = AList.update p Dir fs"
  by (auto simp: mkdir_def lookup_def split: if_splits option.splits node.splits)

lemma mkdtemp_Inr:
  "mkdtemp root pre ns fs = Inr (d, fs') \<Longrightarrow>
   lookup fs d = None \<and> d \<noteq> [] \<and> fs' = AList.update d Dir fs \<and>
   (\<exists>n \<in> set ns. d = root @ [pre @ n])"
proof (induction ns)
  case Nil
  then show ?case by simp
next
  case (Cons n ns)
  show ?case
  proof (cases "mkdir (root @ [pre @ n]) fs")
    case (Inr fs1)
    with Cons.prems mkdir_Inr [OF Inr] show ?thesis by auto
  next
    case (Inl e)
    with Cons show ?thesis by (cases e) auto
  qed
qed

section \<open>The archive sanitizer\<close>

lemma check_members_unsafe:
  "\<exists>m \<in> set ms. \<not> inside dest (zi_filename m) \<Longrightarrow>
   check_members dest (resolve (pure dest)) ms st =
     (Inl (ValueError ''Zip file contains an unsafe path.''), st)"
proof (induction ms)
  case Nil
  then show ?case by simp
next
  case (Cons m ms)
  show ?case
  proof (cases "inside dest (zi_filename m)")
    case True
    with Cons.prems have "\<exists>m \<in> set ms. \<not> inside dest (zi_filename m)" by auto
    with Cons.IH True show ?thesis
      by (simp add: inside_def relative_to_def Let_def)
  next
    case False
    then show ?thesis
      by (auto simp: inside_def relative_to_def Let_def raise_def)
  qed
qed


text \<open>
  C1. When the archive at \<open>zip_path\<close> has a member whose resolved destination path lies
  outside the resolved destination directory, \<^verbatim>\<open>_safe_extract_zip\<close> raises
  \<^verbatim>\<open>ValueError("Zip file contains an unsafe path.")\<close> and leaves the state as it found
  it: every member is checked before the first one is extracted, so no file of the
  archive is written.
\<close>

theorem safe_extract_zip_unsafe:
  assumes "zipfile_open W zip_path (files st) = Inr members"
    and "\<exists>m \<in> set members. \<not> inside dest (zi_filename m)"
  shows "safe_extract_zip W zip_path dest st =
           (Inl (ValueError ''Zip file contains an unsafe path.''), st)"
  using assms(1) check_members_unsafe [OF assms(2)]
  by (simp add: safe_extract_zip_def and_then_def fs_get_def Let_def)

theorem safe_extract_zip_unsafe_witness:
  "zipfile_open demo_world [''tmp'', ''w'', ''figures.zip''] (files (demo_staged ''evil'')) =
     Inr [\<lparr>zi_filename = ''../evil.txt'', zi_data = ''nope''\<rparr>] \<and>
   (\<exists>m \<in> set [\<lparr>zi_filename = ''../evil.txt'', zi_data = ''nope''\<rparr>].
      \<not> inside [''tmp'', ''w'', ''paperFiles''] (zi_filename m)) \<and>
   safe_extract_zip demo_world [''tmp'', ''w'', ''figures.zip''] [''tmp'', ''w'', ''paperFiles'']
     (demo_staged ''evil'') =
     (Inl (ValueError ''Zip file contains an unsafe path.''), demo_staged ''evil'')"
proof -
  have open_ok:
    "zipfile_open demo_world [''tmp'', ''w'', ''figures.zip''] (files (demo_staged ''evil'')) =
       Inr [\<lparr>zi_filename = ''../evil.txt'', zi_data = ''nope''\<rparr>]"
    by code_simp
  have outside:
    "\<exists>m \<in> set [\<lparr>zi_filename = ''../evil.txt'', zi_data = ''nope''\<rparr>].
       \<not> inside [''tmp'', ''w'', ''paperFiles''] (zi_filename m)"
    by (simp add: inside_def resolve_def joinpath_def pure_def str_parts_def normalize_def)
  from safe_extract_zip_unsafe [OF open_ok outside] open_ok outside show ?thesis
    by blast
qed

section \<open>The required uploads\<close>

text \<open>
  C9. For a POST request in which one of the three uploads is missing (absent, or with
  an empty file name) and the other two are there, the handler renders the page with
  the message that names the missing file: \<^verbatim>\<open>Missing .md file.\<close> for the manuscript,
  \<^verbatim>\<open>Missing .bib file.\<close> for the bibliography and \<^verbatim>\<open>Missing figures .zip file.\<close> for
  the figure archive. The state is left as it was.
\<close>

theorem index_missing_upload:
  assumes "req_method req = POST"
  shows "(present (md_file req) = None \<and> present (bib_file req) \<noteq> None \<and>
          present (fig_zip req) \<noteq> None \<longrightarrow>
            index W req st = (Render_template (Some ''Missing .md file.'') None, st)) \<and>
         (present (md_file req) \<noteq> None \<and> present (bib_file req) = None \<and>
          present (fig_zip req) \<noteq> None \<longrightarrow>
            index W req st = (Render_template (Some ''Missing .bib file.'') None, st)) \<and>
         (present (md_file req) \<noteq> None \<and> present (bib_file req) \<noteq> None \<and>
          present (fig_zip req) = None \<longrightarrow>
            index W req st = (Render_template (Some ''Missing figures .zip file.'') None, st))"
  using assms by (auto simp: index_def)

theorem index_missing_upload_witness:
  "index demo_world (demo_request\<lparr>md_file := None\<rparr>) demo_state =
     (Render_template (Some ''Missing .md file.'') None, demo_state) \<and>
   index demo_world (demo_request\<lparr>bib_file := None\<rparr>) demo_state =
     (Render_template (Some ''Missing .bib file.'') None, demo_state) \<and>
   index demo_world (demo_request\<lparr>fig_zip := Some \<lparr>up_filename = [], up_data = ''figures''\<rparr>\<rparr>)
     demo_state =
     (Render_template (Some ''Missing figures .zip file.'') None, demo_state)"
proof -
  have "req_method (demo_request\<lparr>md_file := None\<rparr>) = POST"
    by (simp add: demo_request_def)
  from index_missing_upload [OF this, of demo_world demo_state]
  have a: "index demo_world (demo_request\<lparr>md_file := None\<rparr>) demo_state =
     (Render_template (Some ''Missing .md file.'') None, demo_state)"
    by (simp add: demo_request_def present_def)
  have "req_method (demo_request\<lparr>bib_file := None\<rparr>) = POST"
    by (simp add: demo_request_def)
  from index_missing_upload [OF this, of demo_world demo_state]
  have b: "index demo_world (demo_request\<lparr>bib_file := None\<rparr>) demo_state =
     (Render_template (Some ''Missing .bib file.'') None, demo_state)"
    by (simp add: demo_request_def present_def)
  have "req_method (demo_request\<lparr>fig_zip := Some \<lparr>up_filename = [], up_data = ''figures''\<rparr>\<rparr>) = POST"
    by (simp add: demo_request_def)
  from index_missing_upload [OF this, of demo_world demo_state]
  have c: "index demo_world
      (demo_request\<lparr>fig_zip := Some \<lparr>up_filename = [], up_data = ''figures''\<rparr>\<rparr>) demo_state =
     (Render_template (Some ''Missing figures .zip file.'') None, demo_state)"
    by (simp add: demo_request_def present_def)
  from a b c show ?thesis by simp
qed

section \<open>The workspace\<close>

lemma index_accepted:
  assumes "accepted req"
  shows "\<exists>md bib fig. present (md_file req) = Some md \<and> present (bib_file req) = Some bib \<and>
           present (fig_zip req) = Some fig \<and> index W req st = index_with W md bib fig st"
proof -
  from assms obtain md where md: "present (md_file req) = Some md"
    by (cases "present (md_file req)") (simp_all add: accepted_def)
  from assms md obtain bib where bib: "present (bib_file req) = Some bib"
    by (cases "present (bib_file req)") (simp_all add: accepted_def)
  from assms md bib obtain fig where fig: "present (fig_zip req) = Some fig"
    by (cases "present (fig_zip req)") (simp_all add: accepted_def)
  from assms md bib fig have "index W req st = index_with W md bib fig st"
    by (simp add: accepted_def index_def)
  with md bib fig show ?thesis by blast
qed

lemma index_with_removed:
  assumes "mkdtemp (tmp_root W) ''ieee-convert-'' (tmp_names W) (files st) = Inr (tmpdir, fs1)"
    and "prefix tmpdir p"
  shows "lookup (files (snd (index_with W md bib fig st))) p = None"
proof -
  from mkdtemp_Inr [OF assms(1)] have ne: "tmpdir \<noteq> []" by simp
  obtain resp st2 where r: "index_workspace W md bib fig tmpdir (st\<lparr>files := fs1\<rparr>) = (resp, st2)"
    by (cases "index_workspace W md bib fig tmpdir (st\<lparr>files := fs1\<rparr>)")
  from assms(1) r have "files (snd (index_with W md bib fig st)) = rmtree tmpdir (files st2)"
    by (simp add: index_with_def)
  with ne assms(2) show ?thesis by (simp add: lookup_rmtree)
qed

text \<open>
  C3. For an accepted request \<^verbatim>\<open>tempfile\<close> creates the workspace under a name that was
  not in use, and when \<^verbatim>\<open>index\<close> returns, whatever its answer (the document, a missing
  asset, an unsafe archive, a failed program, a missing document, or an exception that
  leaves the handler), nothing exists at the workspace directory or below it.
\<close>

theorem index_workspace_removed:
  assumes "accepted req"
    and "mkdtemp (tmp_root W) ''ieee-convert-'' (tmp_names W) (files st) = Inr (tmpdir, fs1)"
  shows "lookup (files st) tmpdir = None \<and>
         (\<forall>p. prefix tmpdir p \<longrightarrow> lookup (files (snd (index W req st))) p = None)"
proof -
  from mkdtemp_Inr [OF assms(2)] have fresh: "lookup (files st) tmpdir = None"
    by simp
  from index_accepted [OF assms(1), of W st] obtain md bib fig where
    "index W req st = index_with W md bib fig st" by blast
  with index_with_removed [OF assms(2)] fresh show ?thesis by simp
qed

theorem index_workspace_removed_witness:
  "accepted demo_request \<and>
   mkdtemp (tmp_root demo_world) ''ieee-convert-'' (tmp_names demo_world) (files demo_state) =
     Inr ([''tmp'', ''ieee-convert-a''], AList.update [''tmp'', ''ieee-convert-a''] Dir demo_files) \<and>
   lookup (files demo_state) [''tmp'', ''ieee-convert-a''] = None \<and>
   lookup (files (snd (index demo_world demo_request demo_state))) [''tmp'', ''ieee-convert-a''] = None \<and>
   lookup (files (snd (index demo_world demo_request demo_state)))
     [''tmp'', ''ieee-convert-a'', ''outputs'', ''paper.pdf''] = None"
proof -
  have a: "accepted demo_request"
    by code_simp
  have b: "mkdtemp (tmp_root demo_world) ''ieee-convert-'' (tmp_names demo_world) (files demo_state) =
     Inr ([''tmp'', ''ieee-convert-a''], AList.update [''tmp'', ''ieee-convert-a''] Dir demo_files)"
    by code_simp
  from index_workspace_removed [OF a b] a b show ?thesis
    by simp
qed

section \<open>The compiled document\<close>

lemma read_bytes_stat:
  "stat fs p = Some (File d) \<Longrightarrow> read_bytes p fs = Inr d"
  by (auto simp: stat_def read_bytes_def split: option.splits)

lemma exc_str_called_process:
  "exc_str (CalledProcessError cmd rc so se) \<noteq> ''PDF was not generated.''"
  by simp

text \<open>
  C5. After the pipeline, when the file \<^verbatim>\<open>outputs/paper.pdf\<close> of the workspace does not
  exist, \<^verbatim>\<open>FileNotFoundError("PDF was not generated.")\<close> is raised; the handler renders
  it as the page with that message and an empty log, which the page of no failed
  program equals. When the file exists with the bytes \<open>d\<close>, the answer is \<open>d\<close> sent as
  \<^verbatim>\<open>application/pdf\<close>, as an attachment named \<^verbatim>\<open>paper.pdf\<close>. The state is not changed.
\<close>

theorem index_result_artifact:
  "(\<not> exists (files st) (work @ [''outputs'', ''paper.pdf'']) \<longrightarrow>
      index_result work st = (Inl (FileNotFoundError ''PDF was not generated.''), st) \<and>
      index_except (FileNotFoundError ''PDF was not generated.'') =
        Render_template (Some ''PDF was not generated.'') (Some []) \<and>
      (\<forall>cmd rc so se.
         index_except (CalledProcessError cmd rc so se) \<noteq>
         index_except (FileNotFoundError ''PDF was not generated.''))) \<and>
   (\<forall>d. stat (files st) (work @ [''outputs'', ''paper.pdf'']) = Some (File d) \<longrightarrow>
      index_result work st = (Inr (Send_file d ''application/pdf'' True ''paper.pdf''), st))"
proof -
  have absent: "index_result work st = (Inl (FileNotFoundError ''PDF was not generated.''), st)"
    if "\<not> exists (files st) (work @ [''outputs'', ''paper.pdf''])"
    using that by (simp add: index_result_def raise_def)
  have page: "index_except (FileNotFoundError ''PDF was not generated.'') =
      Render_template (Some ''PDF was not generated.'') (Some [])"
    by (simp add: index_except_def strip_def)
  have other: "index_except (CalledProcessError cmd rc so se) \<noteq>
      index_except (FileNotFoundError ''PDF was not generated.'')" for cmd rc so se
    unfolding page using exc_str_called_process [of cmd rc so se]
    by (simp add: index_except_def del: exc_str.simps)
  have there: "index_result work st = (Inr (Send_file d ''application/pdf'' True ''paper.pdf''), st)"
    if "stat (files st) (work @ [''outputs'', ''paper.pdf'']) = Some (File d)" for d
    using that read_bytes_stat [OF that]
    by (simp add: index_result_def exists_def and_then_def fs_get_def return_def)
  from absent page other there show ?thesis by blast
qed

theorem index_result_artifact_witness:
  "\<not> exists (files (demo_outputs None)) ([''tmp'', ''w''] @ [''outputs'', ''paper.pdf'']) \<and>
   index_result [''tmp'', ''w''] (demo_outputs None) =
     (Inl (FileNotFoundError ''PDF was not generated.''), demo_outputs None) \<and>
   index_except (FileNotFoundError ''PDF was not generated.'') =
     Render_template (Some ''PDF was not generated.'') (Some []) \<and>
   stat (files (demo_outputs (Some ''%PDF-1.5''))) ([''tmp'', ''w''] @ [''outputs'', ''paper.pdf'']) =
     Some (File ''%PDF-1.5'') \<and>
   index_result [''tmp'', ''w''] (demo_outputs (Some ''%PDF-1.5'')) =
     (Inr (Send_file ''%PDF-1.5'' ''application/pdf'' True ''paper.pdf''),
      demo_outputs (Some ''%PDF-1.5''))"
proof -
  have a: "\<not> exists (files (demo_outputs None)) ([''tmp'', ''w''] @ [''outputs'', ''paper.pdf''])"
    by code_simp
  have b: "stat (files (demo_outputs (Some ''%PDF-1.5'')))
      ([''tmp'', ''w''] @ [''outputs'', ''paper.pdf'']) = Some (File ''%PDF-1.5'')"
    by code_simp
  from index_result_artifact [of "demo_outputs None" "[''tmp'', ''w'']"] a
  have c: "index_result [''tmp'', ''w''] (demo_outputs None) =
      (Inl (FileNotFoundError ''PDF was not generated.''), demo_outputs None) \<and>
    index_except (FileNotFoundError ''PDF was not generated.'') =
      Render_template (Some ''PDF was not generated.'') (Some [])"
    by blast
  from index_result_artifact [of "demo_outputs (Some ''%PDF-1.5'')" "[''tmp'', ''w'']"] b
  have d: "index_result [''tmp'', ''w''] (demo_outputs (Some ''%PDF-1.5'')) =
      (Inr (Send_file ''%PDF-1.5'' ''application/pdf'' True ''paper.pdf''),
       demo_outputs (Some ''%PDF-1.5''))"
    by blast
  from a b c d show ?thesis by blast
qed

section \<open>Staging the bibliography\<close>

lemma lookup_root:
  "lookup fs [] = Some Dir"
  by (simp add: lookup_def)

lemma split_on_no_sep:
  "c \<notin> set s \<Longrightarrow> split_on c s = [s]"
  by (induction s) auto

lemma under_plain:
  "plain_name n \<Longrightarrow> under p n = p @ [n]"
  by (cases n) (auto simp: plain_name_def under_def joinpath_def pure_def str_parts_def
      split_on_no_sep)

lemma write_bytes_plain:
  assumes "lookup fs p = Some Dir" and "file_or_free fs (p @ [n])"
  shows "write_bytes (p @ [n]) d fs = Inr (AList.update (p @ [n]) (File d) fs)"
proof -
  from assms(2) have "follow fs 40 (p @ [n]) = Some (p @ [n])"
    by (intro follow_plain) (auto simp: file_or_free_def split: option.splits node.splits)
  with assms show ?thesis
    by (auto simp: write_bytes_def file_or_free_def split: option.splits node.splits)
qed

lemma shutil_copy_plain:
  assumes "lookup fs src = Some (File d)" and "lookup fs p = Some Dir"
    and "file_or_free fs (p @ [n])" and "src \<noteq> p @ [n]"
  shows "shutil_copy src (p @ [n]) fs = Inr (AList.update (p @ [n]) (File d) fs)"
proof -
  from assms(3) have plain: "\<And>t. lookup fs (p @ [n]) \<noteq> Some (Symlink t)"
    by (auto simp: file_or_free_def split: option.splits node.splits)
  from assms(3) have nodir: "\<not> is_dir fs (p @ [n])"
    by (auto simp: is_dir_def stat_plain [OF plain] file_or_free_def
        split: option.splits node.splits)
  from assms(1) have fsrc: "follow fs 40 src = Some src"
    by (intro follow_plain) simp
  have fdst: "follow fs 40 (p @ [n]) = Some (p @ [n])"
    using plain by (rule follow_plain)
  from assms(1) fsrc have rd: "read_bytes src fs = Inr d"
    by (simp add: read_bytes_def)
  from nodir fsrc fdst assms(4) rd write_bytes_plain [OF assms(2,3)] show ?thesis
    by (simp add: shutil_copy_def Let_def)
qed

lemma index_stage_bib_empty:
  assumes "secure_filename W (up_filename bib) = []"
  shows "index_stage_bib W bib paper_dir st =
           fs_op (write_bytes (paper_dir @ [''library.bib'']) (up_data bib)) st"
proof -
  have nm: "under paper_dir ''library.bib'' = paper_dir @ [''library.bib'']"
    by (rule under_plain) (simp add: plain_name_def)
  show ?thesis
    using assms
    by (simp add: index_stage_bib_def nm and_then_def fs_op_def return_def split: sum.splits)
qed

lemma index_stage_bib_library:
  assumes "lookup (files st) paper_dir = Some Dir"
    and "file_or_free (files st) (paper_dir @ [''library.bib''])"
    and "secure_filename W (up_filename bib) = [] \<or>
         secure_filename W (up_filename bib) = ''library.bib''"
  shows "index_stage_bib W bib paper_dir st =
           (Inr (), st\<lparr>files := AList.update (paper_dir @ [''library.bib''])
                                 (File (up_data bib)) (files st)\<rparr>)"
proof -
  have nm: "under paper_dir ''library.bib'' = paper_dir @ [''library.bib'']"
    by (rule under_plain) (simp add: plain_name_def)
  from assms(3) write_bytes_plain [OF assms(1,2)] show ?thesis
    by (auto simp: index_stage_bib_def nm and_then_def fs_op_def return_def)
qed

lemma index_stage_bib_other:
  assumes "lookup (files st) paper_dir = Some Dir"
    and "plain_name (secure_filename W (up_filename bib))"
    and "secure_filename W (up_filename bib) \<noteq> ''library.bib''"
    and "file_or_free (files st) (paper_dir @ [secure_filename W (up_filename bib)])"
    and "file_or_free (files st) (paper_dir @ [''library.bib''])"
  shows "index_stage_bib W bib paper_dir st =
           (Inr (), st\<lparr>files :=
              AList.update (paper_dir @ [''library.bib'']) (File (up_data bib))
                (AList.update (paper_dir @ [secure_filename W (up_filename bib)])
                   (File (up_data bib)) (files st))\<rparr>)"
proof -
  let ?n = "secure_filename W (up_filename bib)"
  let ?fs1 = "AList.update (paper_dir @ [?n]) (File (up_data bib)) (files st)"
  from assms(2) have ne: "?n \<noteq> []" by (simp add: plain_name_def)
  have nm: "under paper_dir ?n = paper_dir @ [?n]"
    using assms(2) by (rule under_plain)
  have w1: "write_bytes (paper_dir @ [?n]) (up_data bib) (files st) = Inr ?fs1"
    using assms(1,4) by (rule write_bytes_plain)
  have src: "lookup ?fs1 (paper_dir @ [?n]) = Some (File (up_data bib))"
    by (simp add: lookup_update)
  have dir: "lookup ?fs1 paper_dir = Some Dir"
    using assms(1) by (simp add: lookup_update)
  have free: "file_or_free ?fs1 (paper_dir @ [''library.bib''])"
    using assms(3,5) by (simp add: file_or_free_def lookup_update)
  have "paper_dir @ [?n] \<noteq> paper_dir @ [''library.bib'']"
    using assms(3) by simp
  from shutil_copy_plain [OF src dir free this] w1 ne assms(3) show ?thesis
    by (simp add: index_stage_bib_def nm and_then_def fs_op_def Let_def)
qed



text \<open>
  C10. When the sanitized name of the bibliography is empty, lines 184 to 189 are the one
  save of the upload under \<^verbatim>\<open>library.bib\<close>, and no copy is made. So, in a manuscript
  directory where the names are free or hold regular files, whether the sanitized name
  is empty or a plain file name, the step succeeds and leaves the uploaded bytes under
  \<^verbatim>\<open>library.bib\<close>.
\<close>

theorem index_stage_bib_fallback:
  assumes "lookup (files st) paper_dir = Some Dir"
    and "file_or_free (files st) (paper_dir @ [''library.bib''])"
    and "secure_filename W (up_filename bib) = [] \<or>
         plain_name (secure_filename W (up_filename bib)) \<and>
         file_or_free (files st) (paper_dir @ [secure_filename W (up_filename bib)])"
  shows "(secure_filename W (up_filename bib) = [] \<longrightarrow>
            index_stage_bib W bib paper_dir st =
              fs_op (write_bytes (paper_dir @ [''library.bib'']) (up_data bib)) st) \<and>
         (\<exists>st'. index_stage_bib W bib paper_dir st = (Inr (), st') \<and>
            lookup (files st') (paper_dir @ [''library.bib'']) = Some (File (up_data bib)))"
proof -
  have "\<exists>st'. index_stage_bib W bib paper_dir st = (Inr (), st') \<and>
            lookup (files st') (paper_dir @ [''library.bib'']) = Some (File (up_data bib))"
  proof (cases "secure_filename W (up_filename bib) = [] \<or>
      secure_filename W (up_filename bib) = ''library.bib''")
    case True
    from index_stage_bib_library [OF assms(1,2) True] show ?thesis
      by (simp add: lookup_update)
  next
    case False
    with assms(3) have "plain_name (secure_filename W (up_filename bib))"
      and "file_or_free (files st) (paper_dir @ [secure_filename W (up_filename bib)])"
      and "secure_filename W (up_filename bib) \<noteq> ''library.bib''"
      by auto
    from index_stage_bib_other [OF assms(1) this(1) this(3) this(2) assms(2)] show ?thesis
      by (simp add: lookup_update)
  qed
  with index_stage_bib_empty [of W bib paper_dir st] show ?thesis
    by blast
qed

theorem index_stage_bib_fallback_witness:
  "secure_filename demo_world ''._.'' = [] \<and>
   index_stage_bib demo_world \<lparr>up_filename = ''._.'', up_data = ''entries''\<rparr>
     [''tmp'', ''w'', ''paperFiles''] (demo_staged ''figures'') =
   fs_op (write_bytes ([''tmp'', ''w'', ''paperFiles''] @ [''library.bib'']) ''entries'')
     (demo_staged ''figures'') \<and>
   (\<exists>st'. index_stage_bib demo_world \<lparr>up_filename = ''._.'', up_data = ''entries''\<rparr>
             [''tmp'', ''w'', ''paperFiles''] (demo_staged ''figures'') = (Inr (), st') \<and>
      lookup (files st') [''tmp'', ''w'', ''paperFiles'', ''library.bib''] = Some (File ''entries''))"
proof -
  let ?bib = "\<lparr>up_filename = ''._.'', up_data = ''entries''\<rparr>"
  have n: "secure_filename demo_world (up_filename ?bib) = []"
    by code_simp
  have a: "lookup (files (demo_staged ''figures'')) [''tmp'', ''w'', ''paperFiles''] = Some Dir"
    by code_simp
  have e: "file_or_free (files (demo_staged ''figures''))
      ([''tmp'', ''w'', ''paperFiles''] @ [''library.bib''])"
    by code_simp
  from n have c: "secure_filename demo_world (up_filename ?bib) = [] \<or>
      plain_name (secure_filename demo_world (up_filename ?bib)) \<and>
      file_or_free (files (demo_staged ''figures''))
        ([''tmp'', ''w'', ''paperFiles''] @ [secure_filename demo_world (up_filename ?bib)])"
    by simp
  note r = index_stage_bib_fallback [OF a e c]
  from r n have eq: "index_stage_bib demo_world ?bib [''tmp'', ''w'', ''paperFiles'']
      (demo_staged ''figures'') =
    fs_op (write_bytes ([''tmp'', ''w'', ''paperFiles''] @ [''library.bib'']) ''entries'')
      (demo_staged ''figures'')"
    by simp
  from r have ex: "\<exists>st'. index_stage_bib demo_world ?bib [''tmp'', ''w'', ''paperFiles'']
      (demo_staged ''figures'') = (Inr (), st') \<and>
    lookup (files st') [''tmp'', ''w'', ''paperFiles'', ''library.bib''] = Some (File ''entries'')"
    by simp
  from n have "secure_filename demo_world ''._.'' = []"
    by simp
  with eq ex show ?thesis
    by blast
qed

section \<open>The pipeline runner\<close>




lemma fs_only_raise: "fs_only (raise e)"
  by (simp add: fs_only_def raise_def)












section \<open>The staged links\<close>

lemma symlink_to_free:
  assumes "lookup fs (p @ [n]) = None" and "lookup fs p = Some Dir"
  shows "symlink_to (p @ [n]) t fs = Inr (AList.update (p @ [n]) (Symlink t) fs)"
  using assms by (simp add: symlink_to_def)

lemma exists_plain:
  "(\<And>t. lookup fs p \<noteq> Some (Symlink t)) \<Longrightarrow> exists fs p = (lookup fs p \<noteq> None)"
  by (simp add: exists_def stat_plain)

lemma link_loop_spec:
  assumes "distinct ns" and "lookup (files st) work = Some Dir"
    and "\<forall>n \<in> set ns. \<forall>t. lookup (files st) (work @ [n]) \<noteq> Some (Symlink t)"
  shows "\<exists>st'. link_loop src work ns links st =
             (Inr (links @ map (\<lambda>n. work @ [n]) (filter (to_link (files st) work) ns)), st') \<and>
           calls st' = calls st \<and>
           (\<forall>n. lookup (files st') (work @ [n]) =
                  (if n \<in> set ns \<and> to_link (files st) work n then Some (Symlink (src @ [n]))
                   else lookup (files st) (work @ [n])))"
  using assms
proof (induction ns arbitrary: links st)
  case Nil
  then show ?case by (simp add: return_def)
next
  case (Cons n ns)
  from Cons.prems have dist: "distinct ns" and notin: "n \<notin> set ns" by simp_all
  have plain: "\<And>t. lookup (files st) (work @ [n]) \<noteq> Some (Symlink t)"
    using Cons.prems(3) by simp
  show ?case
  proof (cases "to_link (files st) work n")
    case False
    then have skip: "link_loop src work (n # ns) links st = link_loop src work ns links st"
      by (auto simp: to_link_def exists_plain [OF plain])
    from Cons.IH [OF dist Cons.prems(2), of links] Cons.prems(3)
    obtain st' where st': "link_loop src work ns links st =
             (Inr (links @ map (\<lambda>n. work @ [n]) (filter (to_link (files st) work) ns)), st')"
        "calls st' = calls st"
        "\<forall>m. lookup (files st') (work @ [m]) =
                  (if m \<in> set ns \<and> to_link (files st) work m then Some (Symlink (src @ [m]))
                   else lookup (files st) (work @ [m]))"
      by auto
    from st' skip False show ?thesis by auto
  next
    case True
    then have free: "lookup (files st) (work @ [n]) = None"
      and sfx: "suffix_of n \<noteq> ''.md''" "suffix_of n \<noteq> ''.bib''"
      by (simp_all add: to_link_def)
    let ?fs1 = "AList.update (work @ [n]) (Symlink (src @ [n])) (files st)"
    let ?st1 = "st\<lparr>files := ?fs1\<rparr>"
    from free have nex: "\<not> exists (files st) (work @ [n])"
      by (simp add: exists_plain [OF plain])
    have step: "link_loop src work (n # ns) links st =
        link_loop src work ns (links @ [work @ [n]]) ?st1"
      using sfx nex symlink_to_free [OF free Cons.prems(2)]
      by (simp add: and_then_def fs_op_def Let_def)
    have dir1: "lookup (files ?st1) work = Some Dir"
      using Cons.prems(2) by (simp add: lookup_update)
    have same: "lookup (files ?st1) (work @ [m]) = lookup (files st) (work @ [m])" if "m \<noteq> n" for m
      using that by (simp add: lookup_update)
    have plain1: "\<forall>m \<in> set ns. \<forall>t. lookup (files ?st1) (work @ [m]) \<noteq> Some (Symlink t)"
    proof (intro ballI allI)
      fix m t
      assume m: "m \<in> set ns"
      with notin have "m \<noteq> n" by auto
      from same [OF this] Cons.prems(3) m
      show "lookup (files ?st1) (work @ [m]) \<noteq> Some (Symlink t)"
        by simp
    qed
    have tl: "to_link (files ?st1) work m = to_link (files st) work m" if "m \<in> set ns" for m
    proof -
      from that notin have "m \<noteq> n" by auto
      from same [OF this] show ?thesis
        by (simp add: to_link_def)
    qed
    then have flt: "filter (to_link (files ?st1) work) ns = filter (to_link (files st) work) ns"
      by (auto intro: filter_cong)
    from Cons.IH [OF dist dir1 plain1, of "links @ [work @ [n]]"]
    obtain st' where st': "link_loop src work ns (links @ [work @ [n]]) ?st1 =
             (Inr ((links @ [work @ [n]]) @
                map (\<lambda>n. work @ [n]) (filter (to_link (files ?st1) work) ns)), st')"
        "calls st' = calls ?st1"
        "\<forall>m. lookup (files st') (work @ [m]) =
                  (if m \<in> set ns \<and> to_link (files ?st1) work m then Some (Symlink (src @ [m]))
                   else lookup (files ?st1) (work @ [m]))"
      by auto
    have res: "link_loop src work (n # ns) links st =
        (Inr (links @ map (\<lambda>n. work @ [n]) (filter (to_link (files st) work) (n # ns))), st')"
      using step st'(1) flt True by simp
    have look: "lookup (files st') (work @ [m]) =
                  (if m \<in> set (n # ns) \<and> to_link (files st) work m then Some (Symlink (src @ [m]))
                   else lookup (files st) (work @ [m]))" for m
    proof (cases "m = n")
      case True
      with st'(3) notin \<open>to_link (files st) work n\<close> show ?thesis
        by (simp add: lookup_update)
    next
      case False
      with st'(3) tl [of m] same [of m] show ?thesis by auto
    qed
    from res st'(2) look show ?thesis by auto
  qed
qed

lemma distinct_iterdir: "distinct (iterdir fs d)"
  by (simp add: iterdir_def)

lemma set_iterdir: "set (iterdir fs d) = {n. map_of fs (d @ [n]) \<noteq> None}"
proof -
  have "n \<in> set (iterdir fs d) \<longleftrightarrow> d @ [n] \<in> fst ` set fs" for n
  proof
    assume "n \<in> set (iterdir fs d)"
    then obtain p where p: "p \<in> fst ` set fs" "p \<noteq> []" "butlast p = d" "last p = n"
      by (auto simp: iterdir_def)
    then have "p = d @ [n]" by (metis append_butlast_last_id)
    with p(1) show "d @ [n] \<in> fst ` set fs" by simp
  next
    assume "d @ [n] \<in> fst ` set fs"
    then have "d @ [n] \<in> set (filter (\<lambda>p. p \<noteq> [] \<and> butlast p = d) (map fst fs))"
      by simp
    then have "last (d @ [n]) \<in> last ` set (filter (\<lambda>p. p \<noteq> [] \<and> butlast p = d) (map fst fs))"
      by (rule imageI)
    then show "n \<in> set (iterdir fs d)"
      by (simp add: iterdir_def)
  qed
  then show ?thesis
    by (auto simp: map_of_eq_None_iff)
qed
lemma is_symlink_iff:
  "is_symlink fs p = (\<exists>t. lookup fs p = Some (Symlink t))"
  by (auto simp: is_symlink_def split: option.splits node.splits)

text \<open>
  C7, as the code has it. In a workspace root that is a directory and holds no symbolic
  link under the name of an entry, \<^verbatim>\<open>_link_paper_assets\<close> returns, and for every entry
  directly inside the manuscript directory: when the suffix of its name (what
  \<^verbatim>\<open>Path.suffix\<close> gives: the name from its last dot on, unless that dot is the first or
  the last character) is \<^verbatim>\<open>.md\<close> or \<^verbatim>\<open>.bib\<close>, or when something of that name is
  already in the workspace root, no link is made and what the root holds under that name
  is left as it is; otherwise a link of that name is made in the root, pointing at the
  entry, and returned.
\<close>

theorem link_paper_assets_links:
  assumes "exists (files st) src_dir"
    and "lookup (files st) work_dir = Some Dir"
    and "\<forall>n \<in> set (iterdir (files st) src_dir). \<not> is_symlink (files st) (work_dir @ [n])"
  shows "\<exists>links st'. link_paper_assets src_dir work_dir st = (Inr links, st') \<and>
           (\<forall>n \<in> set (iterdir (files st) src_dir).
              if suffix_of n = ''.md'' \<or> suffix_of n = ''.bib'' \<or>
                 lookup (files st) (work_dir @ [n]) \<noteq> None
              then work_dir @ [n] \<notin> set links \<and>
                   lookup (files st') (work_dir @ [n]) = lookup (files st) (work_dir @ [n])
              else work_dir @ [n] \<in> set links \<and>
                   lookup (files st') (work_dir @ [n]) = Some (Symlink (src_dir @ [n])))"
proof -
  let ?ns = "iterdir (files st) src_dir"
  let ?links = "map (\<lambda>n. work_dir @ [n]) (filter (to_link (files st) work_dir) ?ns)"
  from assms(3) have plain:
    "\<forall>n \<in> set ?ns. \<forall>t. lookup (files st) (work_dir @ [n]) \<noteq> Some (Symlink t)"
    by (simp add: is_symlink_iff)
  from link_loop_spec [OF distinct_iterdir assms(2) plain, of src_dir "[]"]
  obtain st' where st': "link_loop src_dir work_dir ?ns [] st = (Inr ?links, st')"
      "\<forall>n. lookup (files st') (work_dir @ [n]) =
                  (if n \<in> set ?ns \<and> to_link (files st) work_dir n
                   then Some (Symlink (src_dir @ [n]))
                   else lookup (files st) (work_dir @ [n]))"
    by auto
  from assms(1) st'(1) have res: "link_paper_assets src_dir work_dir st = (Inr ?links, st')"
    by (simp add: link_paper_assets_def)
  have mem: "work_dir @ [n] \<in> set ?links \<longleftrightarrow> n \<in> set ?ns \<and> to_link (files st) work_dir n" for n
    by auto
  have "if suffix_of n = ''.md'' \<or> suffix_of n = ''.bib'' \<or>
                 lookup (files st) (work_dir @ [n]) \<noteq> None
              then work_dir @ [n] \<notin> set ?links \<and>
                   lookup (files st') (work_dir @ [n]) = lookup (files st) (work_dir @ [n])
              else work_dir @ [n] \<in> set ?links \<and>
                   lookup (files st') (work_dir @ [n]) = Some (Symlink (src_dir @ [n]))"
    if "n \<in> set ?ns" for n
    using that st'(2) unfolding mem by (auto simp: to_link_def)
  with res show ?thesis by blast
qed

theorem link_paper_assets_links_witness:
  "exists (files demo_extracted) [''tmp'', ''w'', ''paperFiles''] \<and>
   lookup (files demo_extracted) [''tmp'', ''w''] = Some Dir \<and>
   iterdir (files demo_extracted) [''tmp'', ''w'', ''paperFiles''] =
     [''paper.md'', ''library.bib'', ''result_plots'', ''.md'', ''ieee''] \<and>
   (\<exists>links st'. link_paper_assets [''tmp'', ''w'', ''paperFiles''] [''tmp'', ''w''] demo_extracted =
        (Inr links, st') \<and>
      [''tmp'', ''w'', ''paper.md''] \<notin> set links \<and>
      lookup (files st') [''tmp'', ''w'', ''paper.md''] = None \<and>
      [''tmp'', ''w'', ''ieee''] \<notin> set links \<and>
      lookup (files st') [''tmp'', ''w'', ''ieee''] = Some Dir \<and>
      [''tmp'', ''w'', ''result_plots''] \<in> set links \<and>
      lookup (files st') [''tmp'', ''w'', ''result_plots''] =
        Some (Symlink [''tmp'', ''w'', ''paperFiles'', ''result_plots'']))"
proof -
  let ?src = "[''tmp'', ''w'', ''paperFiles'']"
  let ?work = "[''tmp'', ''w'']"
  have a: "exists (files demo_extracted) ?src"
    by code_simp
  have b: "lookup (files demo_extracted) ?work = Some Dir"
    by code_simp
  have ns: "iterdir (files demo_extracted) ?src =
      [''paper.md'', ''library.bib'', ''result_plots'', ''.md'', ''ieee'']"
    by code_simp
  have c: "\<forall>n \<in> set (iterdir (files demo_extracted) ?src).
      \<not> is_symlink (files demo_extracted) (?work @ [n])"
    by code_simp
  from link_paper_assets_links [OF a b c] obtain links st' where
    r: "link_paper_assets ?src ?work demo_extracted = (Inr links, st')"
    and each: "\<forall>n \<in> set (iterdir (files demo_extracted) ?src).
              if suffix_of n = ''.md'' \<or> suffix_of n = ''.bib'' \<or>
                 lookup (files demo_extracted) (?work @ [n]) \<noteq> None
              then ?work @ [n] \<notin> set links \<and>
                   lookup (files st') (?work @ [n]) = lookup (files demo_extracted) (?work @ [n])
              else ?work @ [n] \<in> set links \<and>
                   lookup (files st') (?work @ [n]) = Some (Symlink (?src @ [n]))"
    by blast
  have s1: "suffix_of ''paper.md'' = ''.md''"
    by code_simp
  have l1: "lookup (files demo_extracted) (?work @ [''paper.md'']) = None"
    by code_simp
  have l2: "lookup (files demo_extracted) (?work @ [''ieee'']) = Some Dir"
    by code_simp
  have s3: "suffix_of ''result_plots'' = []"
    by code_simp
  have l3: "lookup (files demo_extracted) (?work @ [''result_plots'']) = None"
    by code_simp
  from each ns s1 l1 have e1: "[''tmp'', ''w'', ''paper.md''] \<notin> set links \<and>
      lookup (files st') [''tmp'', ''w'', ''paper.md''] = None"
    by simp
  from each ns l2 have e2: "[''tmp'', ''w'', ''ieee''] \<notin> set links \<and>
      lookup (files st') [''tmp'', ''w'', ''ieee''] = Some Dir"
    by simp
  from each ns s3 l3 have e3: "[''tmp'', ''w'', ''result_plots''] \<in> set links \<and>
      lookup (files st') [''tmp'', ''w'', ''result_plots''] =
        Some (Symlink [''tmp'', ''w'', ''paperFiles'', ''result_plots''])"
    by simp
  from a b ns r e1 e2 e3 show ?thesis
    by blast
qed

text \<open>
  The claim as it is written fails for an entry called \<^verbatim>\<open>.md\<close>: its name ends in
  \<^verbatim>\<open>.md\<close>, its suffix is empty, and a link to it is made in the workspace root.
\<close>

theorem link_paper_assets_hidden_counterexample:
  "''.md'' \<in> set (iterdir (files demo_extracted) [''tmp'', ''w'', ''paperFiles'']) \<and>
   suffix ''.md'' ''.md'' \<and>
   fst (link_paper_assets [''tmp'', ''w'', ''paperFiles''] [''tmp'', ''w''] demo_extracted) =
     Inr [[''tmp'', ''w'', ''result_plots''], [''tmp'', ''w'', ''.md'']] \<and>
   lookup (files (snd (link_paper_assets [''tmp'', ''w'', ''paperFiles''] [''tmp'', ''w'']
       demo_extracted))) [''tmp'', ''w'', ''.md''] =
     Some (Symlink [''tmp'', ''w'', ''paperFiles'', ''.md''])"
proof -
  have "''.md'' \<in> set (iterdir (files demo_extracted) [''tmp'', ''w'', ''paperFiles''])"
    by code_simp
  moreover have "suffix ''.md'' ''.md''"
    by simp
  moreover have "fst (link_paper_assets [''tmp'', ''w'', ''paperFiles''] [''tmp'', ''w'']
      demo_extracted) = Inr [[''tmp'', ''w'', ''result_plots''], [''tmp'', ''w'', ''.md'']]"
    by code_simp
  moreover have "lookup (files (snd (link_paper_assets [''tmp'', ''w'', ''paperFiles'']
      [''tmp'', ''w''] demo_extracted))) [''tmp'', ''w'', ''.md''] =
     Some (Symlink [''tmp'', ''w'', ''paperFiles'', ''.md''])"
    by code_simp
  ultimately show ?thesis by blast
qed

section \<open>Removing the staged links\<close>

lemma symlink_to_Inr:
  "symlink_to t e fs = Inr fs' \<Longrightarrow> fs' = AList.update t (Symlink e) fs \<and> t \<noteq> []"
  by (auto simp: symlink_to_def lookup_def split: if_splits option.splits node.splits)

lemma is_symlink_update:
  "is_symlink fs l \<Longrightarrow> is_symlink (AList.update t (Symlink e) fs) l"
  by (auto simp: is_symlink_def lookup_def update_conv' split: option.splits node.splits if_splits)

lemma link_loop_symlinks:
  assumes "link_loop src work ns acc st = (Inr links, st')"
    and "\<forall>l \<in> set acc. is_symlink (files st) l"
  shows "\<forall>l \<in> set links. is_symlink (files st') l"
  using assms
proof (induction ns arbitrary: acc st)
  case Nil
  then show ?case by (simp add: return_def)
next
  case (Cons n ns)
  show ?case
  proof (cases "suffix_of n = ''.md'' \<or> suffix_of n = ''.bib'' \<or> exists (files st) (work @ [n])")
    case True
    with Cons.prems(1) have "link_loop src work ns acc st = (Inr links, st')"
      by (auto simp: Let_def split: if_splits)
    from Cons.IH [OF this Cons.prems(2)] show ?thesis .
  next
    case False
    show ?thesis
    proof (cases "symlink_to (work @ [n]) (src @ [n]) (files st)")
      case (Inl e)
      with False Cons.prems(1) show ?thesis
        by (simp add: Let_def and_then_def fs_op_def)
    next
      case (Inr fs1)
      from symlink_to_Inr [OF Inr]
      have fs1: "fs1 = AList.update (work @ [n]) (Symlink (src @ [n])) (files st)"
        by simp
      from False Inr Cons.prems(1)
      have rest: "link_loop src work ns (acc @ [work @ [n]]) (st\<lparr>files := fs1\<rparr>) = (Inr links, st')"
        by (simp add: Let_def and_then_def fs_op_def)
      have "\<forall>l \<in> set (acc @ [work @ [n]]). is_symlink (files (st\<lparr>files := fs1\<rparr>)) l"
        using Cons.prems(2) unfolding fs1
        by (auto simp: is_symlink_update) (simp add: is_symlink_def lookup_update)
      from Cons.IH [OF rest this] show ?thesis .
    qed
  qed
qed

lemma link_paper_assets_symlinks:
  assumes "link_paper_assets src work st = (Inr links, st')"
  shows "\<forall>l \<in> set links. is_symlink (files st') l"
proof (cases "exists (files st) src")
  case True
  with assms have "link_loop src work (iterdir (files st) src) [] st = (Inr links, st')"
    by (simp add: link_paper_assets_def)
  from link_loop_symlinks [OF this] show ?thesis by simp
next
  case False
  with assms show ?thesis
    by (simp add: link_paper_assets_def return_def)
qed

lemma unlink_all_removes:
  assumes "\<forall>l \<in> set ls. lookup (files st) l \<noteq> Some Dir"
  shows "\<exists>st'. unlink_all ls st = (Inr (), st') \<and> calls st' = calls st \<and>
           (\<forall>p. lookup (files st') p = (if p \<in> set ls then None else lookup (files st) p))"
  using assms
proof (induction ls arbitrary: st)
  case Nil
  then show ?case by (simp add: return_def)
next
  case (Cons l ls)
  from Cons.prems have nd: "lookup (files st) l \<noteq> Some Dir" by simp
  then have ne: "l \<noteq> []" by (auto simp: lookup_root)
  obtain fs1 where u: "unlink_missing_ok l (files st) = Inr fs1"
    and l1: "\<forall>p. lookup fs1 p = (if p = l then None else lookup (files st) p)"
  proof (cases "lookup (files st) l")
    case None
    then have "unlink_missing_ok l (files st) = Inr (files st)"
      by (simp add: unlink_missing_ok_def)
    with None that [of "files st"] show ?thesis by auto
  next
    case (Some nd')
    with nd have "unlink_missing_ok l (files st) = Inr (AList.delete l (files st))"
      by (cases nd') (simp_all add: unlink_missing_ok_def)
    with ne that [of "AList.delete l (files st)"] show ?thesis
      by (auto simp: lookup_delete lookup_root)
  qed
  let ?st1 = "st\<lparr>files := fs1\<rparr>"
  from Cons.prems l1 have "\<forall>l' \<in> set ls. lookup (files ?st1) l' \<noteq> Some Dir"
    by auto
  from Cons.IH [OF this] obtain st' where st': "unlink_all ls ?st1 = (Inr (), st')"
      "calls st' = calls ?st1"
      "\<forall>p. lookup (files st') p = (if p \<in> set ls then None else lookup (files ?st1) p)"
    by blast
  from u st'(1) have "unlink_all (l # ls) st = (Inr (), st')"
    by (simp add: and_then_def fs_op_def)
  moreover from st'(3) l1 have
    "\<forall>p. lookup (files st') p = (if p \<in> set (l # ls) then None else lookup (files st) p)"
    by auto
  ultimately show ?case using st'(2) by auto
qed

text \<open>
  C8. Let \<^verbatim>\<open>_link_paper_assets\<close> return the links \<open>links\<close>, each of them a symbolic link
  in the state the conversion starts from. Whatever the outcome \<open>r\<close> of
  \<^verbatim>\<open>_run_conversion\<close> is, a return or an error, the \<^verbatim>\<open>finally\<close> clause runs next: lines
  195 to 200 end with the outcome \<open>r\<close> in a state where none of the links exists and
  every other path is as the conversion left it, the workspace included. The programs
  are assumed not to have put a directory where a link was.
\<close>

theorem index_pipeline_unlinks:
  assumes "link_paper_assets paper_dir work st = (Inr links, st1)"
    and "run_conversion W work paper_dir st1 = (r, st2)"
    and "\<forall>l \<in> set links. lookup (files st2) l \<noteq> Some Dir"
  shows "(\<forall>l \<in> set links. is_symlink (files st1) l) \<and>
         (\<exists>st3. index_pipeline W work paper_dir st = (r, st3) \<and> calls st3 = calls st2 \<and>
            (\<forall>p. lookup (files st3) p =
                   (if p \<in> set links then None else lookup (files st2) p)))"
proof -
  from unlink_all_removes [OF assms(3)] obtain st3 where
    st3: "unlink_all links st2 = (Inr (), st3)" "calls st3 = calls st2"
      "\<forall>p. lookup (files st3) p = (if p \<in> set links then None else lookup (files st2) p)"
    by blast
  from assms(1,2) st3(1) have "index_pipeline W work paper_dir st = (r, st3)"
    by (simp add: index_pipeline_def and_then_def try_finally_def)
  with st3(2,3) link_paper_assets_symlinks [OF assms(1)] show ?thesis
    by blast
qed

theorem index_pipeline_unlinks_witness:
  "fst (link_paper_assets [''tmp'', ''w'', ''paperFiles''] [''tmp'', ''w''] demo_extracted) =
     Inr [[''tmp'', ''w'', ''result_plots''], [''tmp'', ''w'', ''.md'']] \<and>
   is_symlink (files (snd (link_paper_assets [''tmp'', ''w'', ''paperFiles''] [''tmp'', ''w'']
       demo_extracted))) [''tmp'', ''w'', ''result_plots''] \<and>
   (\<exists>r st3. index_pipeline demo_world [''tmp'', ''w''] [''tmp'', ''w'', ''paperFiles'']
        demo_extracted = (r, st3) \<and>
      lookup (files st3) [''tmp'', ''w'', ''result_plots''] = None \<and>
      lookup (files st3) [''tmp'', ''w'', ''.md''] = None)"
proof -
  let ?paper = "[''tmp'', ''w'', ''paperFiles'']"
  let ?work = "[''tmp'', ''w'']"
  let ?links = "[[''tmp'', ''w'', ''result_plots''], [''tmp'', ''w'', ''.md'']]"
  let ?L = "link_paper_assets ?paper ?work demo_extracted"
  let ?R = "run_conversion demo_world ?work ?paper (snd ?L)"
  have l: "fst ?L = Inr ?links"
    by code_simp
  then have a: "?L = (Inr ?links, snd ?L)"
    by (metis prod.collapse)
  have b: "?R = (fst ?R, snd ?R)"
    by simp
  have c: "\<forall>l \<in> set ?links. lookup (files (snd ?R)) l \<noteq> Some Dir"
    by code_simp
  from index_pipeline_unlinks [OF a b c] obtain st3 where
    s: "\<forall>l \<in> set ?links. is_symlink (files (snd ?L)) l"
    and r: "index_pipeline demo_world ?work ?paper demo_extracted = (fst ?R, st3)"
    and p: "\<forall>p. lookup (files st3) p = (if p \<in> set ?links then None else lookup (files (snd ?R)) p)"
    by blast
  from s have s1: "is_symlink (files (snd ?L)) [''tmp'', ''w'', ''result_plots'']"
    by simp
  from p have p1: "lookup (files st3) [''tmp'', ''w'', ''result_plots''] = None"
    and p2: "lookup (files st3) [''tmp'', ''w'', ''.md''] = None"
    by simp_all
  from l s1 r p1 p2 show ?thesis
    by blast
qed

section \<open>Extracting an archive\<close>




























end
